theory Spec2Isabelle
  imports Complex_Main "HOL-Library.Multiset"
begin

section \<open>JavaScript numbers\<close>

text \<open>
  A JavaScript number is modelled as a real number or one of the three special values of
  IEEE 754 that steer the control flow of the detector: \<open>NaN\<close> (which is also what
  \<open>undefined\<close> becomes in arithmetic), \<open>+Infinity\<close> and \<open>-Infinity\<close>.
  Arithmetic on finite values is exact: rounding and overflow of doubles are not
  modelled, and zero carries no sign (a non-zero value divided by zero is the infinity
  with the sign of the numerator).
\<close>

datatype jsnum = NaN | Num real | PInf | NInf

fun js_neg :: "jsnum \<Rightarrow> jsnum" where
  "js_neg NaN = NaN"
| "js_neg (Num a) = Num (- a)"
| "js_neg PInf = NInf"
| "js_neg NInf = PInf"

fun js_add :: "jsnum \<Rightarrow> jsnum \<Rightarrow> jsnum" where
  "js_add NaN _ = NaN"
| "js_add _ NaN = NaN"
| "js_add (Num a) (Num b) = Num (a + b)"
| "js_add (Num a) PInf = PInf"
| "js_add (Num a) NInf = NInf"
| "js_add PInf (Num b) = PInf"
| "js_add NInf (Num b) = NInf"
| "js_add PInf PInf = PInf"
| "js_add NInf NInf = NInf"
| "js_add PInf NInf = NaN"
| "js_add NInf PInf = NaN"

definition js_sub :: "jsnum \<Rightarrow> jsnum \<Rightarrow> jsnum" where
  "js_sub a b = js_add a (js_neg b)"

text \<open>The sign of a number that is not NaN: \<open>-1\<close>, \<open>0\<close> or \<open>1\<close>.\<close>

fun js_sign :: "jsnum \<Rightarrow> real" where
  "js_sign NaN = 0"
| "js_sign (Num a) = sgn a"
| "js_sign PInf = 1"
| "js_sign NInf = - 1"

definition signed_inf :: "real \<Rightarrow> jsnum" where
  "signed_inf s = (if s = 0 then NaN else if 0 < s then PInf else NInf)"

fun js_mul :: "jsnum \<Rightarrow> jsnum \<Rightarrow> jsnum" where
  "js_mul NaN _ = NaN"
| "js_mul _ NaN = NaN"
| "js_mul (Num a) (Num b) = Num (a * b)"
| "js_mul a b = signed_inf (js_sign a * js_sign b)"

fun js_div :: "jsnum \<Rightarrow> jsnum \<Rightarrow> jsnum" where
  "js_div NaN _ = NaN"
| "js_div _ NaN = NaN"
| "js_div (Num a) (Num b) = (if b = 0 then signed_inf (sgn a) else Num (a / b))"
| "js_div (Num a) _ = Num 0"
| "js_div PInf (Num b) = (if b < 0 then NInf else PInf)"
| "js_div NInf (Num b) = (if b < 0 then PInf else NInf)"
| "js_div _ _ = NaN"

fun js_sqrt :: "jsnum \<Rightarrow> jsnum" where
  "js_sqrt (Num a) = (if a < 0 then NaN else Num (sqrt a))"
| "js_sqrt PInf = PInf"
| "js_sqrt _ = NaN"

fun js_abs :: "jsnum \<Rightarrow> jsnum" where
  "js_abs NaN = NaN"
| "js_abs (Num a) = Num \<bar>a\<bar>"
| "js_abs _ = PInf"

fun js_floor :: "jsnum \<Rightarrow> jsnum" where
  "js_floor (Num a) = Num (of_int \<lfloor>a\<rfloor>)"
| "js_floor a = a"

fun js_cos :: "jsnum \<Rightarrow> jsnum" where
  "js_cos (Num a) = Num (cos a)"
| "js_cos _ = NaN"

fun js_sin :: "jsnum \<Rightarrow> jsnum" where
  "js_sin (Num a) = Num (sin a)"
| "js_sin _ = NaN"

text \<open>\<open>Math.pow(b, n)\<close> for a natural exponent.\<close>

fun js_pow :: "jsnum \<Rightarrow> nat \<Rightarrow> jsnum" where
  "js_pow b 0 = Num 1"
| "js_pow b (Suc n) = (if n = 0 then b else js_mul b (js_pow b n))"

text \<open>\<open>a < b\<close>; every comparison with NaN is false. \<open>a > b\<close> is \<open>js_lt b a\<close>.\<close>

fun js_lt :: "jsnum \<Rightarrow> jsnum \<Rightarrow> bool" where
  "js_lt NaN _ = False"
| "js_lt _ NaN = False"
| "js_lt (Num a) (Num b) = (a < b)"
| "js_lt (Num a) PInf = True"
| "js_lt (Num a) NInf = False"
| "js_lt PInf _ = False"
| "js_lt NInf NInf = False"
| "js_lt NInf _ = True"

text \<open>\<open>a === b\<close> on numbers: NaN equals nothing.\<close>

definition js_strict_eq :: "jsnum \<Rightarrow> jsnum \<Rightarrow> bool" where
  "js_strict_eq a b = (a \<noteq> NaN \<and> a = b)"

text \<open>A number is truthy unless it is zero or NaN.\<close>

definition truthy_num :: "jsnum \<Rightarrow> bool" where
  "truthy_num a = (a \<noteq> NaN \<and> a \<noteq> Num 0)"

text \<open>
  A property that may be absent is an \<open>option\<close>. In arithmetic \<open>undefined\<close> becomes
  NaN and \<open>null\<close> becomes \<open>0\<close>; an absent property is falsy.
\<close>

definition undefined_to_number :: "jsnum option \<Rightarrow> jsnum" where
  "undefined_to_number v = (case v of None \<Rightarrow> NaN | Some a \<Rightarrow> a)"

definition null_to_number :: "jsnum option \<Rightarrow> jsnum" where
  "null_to_number v = (case v of None \<Rightarrow> Num 0 | Some a \<Rightarrow> a)"

definition truthy_field :: "jsnum option \<Rightarrow> bool" where
  "truthy_field v = (case v of None \<Rightarrow> False | Some a \<Rightarrow> truthy_num a)"

text \<open>
  \<open>new Date(t)\<close> keeps the time value \<open>t\<close> in milliseconds, cut to an integer, and is
  an invalid date (time value NaN) outside \<open>\<plusminus>8.64e15\<close>.
\<close>

definition new_Date :: "jsnum \<Rightarrow> jsnum" where
  "new_Date t = (case t of
       Num a \<Rightarrow> if 8640000000000000 < \<bar>a\<bar> then NaN
                else Num (of_int (if 0 \<le> a then \<lfloor>a\<rfloor> else \<lceil>a\<rceil>))
     | _ \<Rightarrow> NaN)"

text \<open>The decimal digits of a natural number, as a template literal prints them.\<close>

fun show_nat :: "nat \<Rightarrow> string" where
  "show_nat n = (if n < 10 then [char_of (48 + n)]
                 else show_nat (n div 10) @ [char_of (48 + n mod 10)])"

definition show_name :: "string option \<Rightarrow> string" where
  "show_name v = (case v of None \<Rightarrow> ''undefined'' | Some s \<Rightarrow> s)"

section \<open>Data model\<close>

record vec3 =
  vx :: jsnum
  vy :: jsnum
  vz :: jsnum

text \<open>
  A tracked object. \<open>'r\<close> is the SGP4 record of the orbit library; every property the
  detector tests for presence is optional. \<open>timestamp\<close> is the time value of a Date.
\<close>

record 'r satellite =
  name :: "string option"
  satrec :: "'r option"
  altitude :: "jsnum option"
  latitude :: "jsnum option"
  longitude :: "jsnum option"
  position :: "vec3 option"
  timestamp :: "jsnum option"

text \<open>What \<open>satellite.propagate\<close> of the orbit library returns: each part is an object or \<open>false\<close>.\<close>

record propagation =
  pv_position :: "vec3 option"
  pv_velocity :: "vec3 option"

text \<open>A resolved state: the object returned by \<open>propagateSatellite\<close> and \<open>propagateSimple\<close>.\<close>

record resolved =
  st_position :: vec3
  st_velocity :: "vec3 option"
  st_timestamp :: jsnum

record positions_pair =
  pos_sat1 :: vec3
  pos_sat2 :: vec3

record closestApproach =
  missDistance :: jsnum
  timeToClosestApproach :: "jsnum option"
  relativeVelocity :: jsnum
  positions :: "positions_pair option"
  ca_timestamp :: jsnum

datatype risk = CRITICAL | HIGH | ELEVATED | MODERATE

record 'r conjunction = closestApproach +
  sat1 :: "'r satellite"
  sat2 :: "'r satellite"
  riskLevel :: risk
  conj_id :: string

record fragment =
  frag_position :: "vec3 option"
  frag_velocity :: vec3
  frag_size :: jsnum
  satellite1Name :: "string option"
  satellite2Name :: "string option"
  createdAt :: jsnum

record 'r impact =
  imp_satellite :: "'r satellite"
  imp_riskLevel :: risk
  reason :: string

text \<open>
  The collaborators of the engine: the SGP4 propagator of the orbit library, taking a
  record and the time value of a Date; the wall clock, read as one instant; and the
  random source, \<open>random E n\<close> being what the \<open>n\<close>-th call of \<open>Math.random()\<close> returns.
\<close>

record 'r env =
  sgp4 :: "'r \<Rightarrow> jsnum \<Rightarrow> propagation"
  date_now :: nat
  random :: "nat \<Rightarrow> real"

datatype js_error = TypeError

section \<open>Geometry and risk tiers\<close>

definition EARTH_RADIUS_KM :: jsnum where
  "EARTH_RADIUS_KM = Num 6371"

definition HIGH_RISK_THRESHOLD_KM :: jsnum where
  "HIGH_RISK_THRESHOLD_KM = Num 1.0"

definition PREDICTION_HORIZON_MINUTES :: jsnum where
  "PREDICTION_HORIZON_MINUTES = Num 30"

definition TIME_STEPS :: nat where
  "TIME_STEPS = 30"

definition calculateDistance3D :: "vec3 \<Rightarrow> vec3 \<Rightarrow> jsnum" where
  "calculateDistance3D pos1 pos2 =
     (let dx = js_sub (vx pos1) (vx pos2);
          dy = js_sub (vy pos1) (vy pos2);
          dz = js_sub (vz pos1) (vz pos2)
      in js_sqrt (js_add (js_add (js_mul dx dx) (js_mul dy dy)) (js_mul dz dz)))"

definition calculateRelativeVelocity :: "vec3 \<Rightarrow> vec3 \<Rightarrow> jsnum" where
  "calculateRelativeVelocity vel1 vel2 =
     (let dvx = js_sub (vx vel1) (vx vel2);
          dvy = js_sub (vy vel1) (vy vel2);
          dvz = js_sub (vz vel1) (vz vel2)
      in js_sqrt (js_add (js_add (js_mul dvx dvx) (js_mul dvy dvy)) (js_mul dvz dvz)))"

definition getRiskLevel :: "jsnum \<Rightarrow> jsnum \<Rightarrow> risk" where
  "getRiskLevel missDist relVel =
     (if js_lt missDist (Num 0.1) then CRITICAL
      else if js_lt missDist (Num 0.5) then HIGH
      else if js_lt missDist (Num 1.0) then ELEVATED
      else MODERATE)"

section \<open>Resolving the state of an object\<close>

text \<open>
  \<open>propagateSatellite\<close> reads \<open>sat.timestamp.getTime()\<close> without a test: on an object
  with an SGP4 record and no timestamp this is a TypeError, which nothing in the
  detector catches.
\<close>

definition propagateSatellite ::
  "'r env \<Rightarrow> 'r satellite \<Rightarrow> jsnum \<Rightarrow> js_error + resolved option" where
  "propagateSatellite E sat minutesAhead =
     (case satrec sat of
        None \<Rightarrow> Inr None
      | Some rec \<Rightarrow>
          (case timestamp sat of
             None \<Rightarrow> Inl TypeError
           | Some t \<Rightarrow>
               (let futureTime = new_Date (js_add t (js_mul minutesAhead (Num 60000)));
                    positionAndVelocity = sgp4 E rec futureTime
                in case pv_position positionAndVelocity of
                     Some p \<Rightarrow> Inr (Some \<lparr>st_position = p,
                                          st_velocity = pv_velocity positionAndVelocity,
                                          st_timestamp = futureTime\<rparr>)
                   | None \<Rightarrow> Inr None)))"

definition propagateSimple :: "'r env \<Rightarrow> jsnum \<Rightarrow> jsnum \<Rightarrow> jsnum \<Rightarrow> jsnum \<Rightarrow> resolved" where
  "propagateSimple E alt lat0 lon0 minutesAhead =
     (let GM = Num 398600.4418;
          orbitalRadius = js_add EARTH_RADIUS_KM alt;
          period = js_div (js_mul (js_mul (Num 2) (Num pi))
                                  (js_sqrt (js_div (js_pow orbitalRadius 3) GM))) (Num 60);
          angularVelocity = js_div (Num 360) period;
          displacement = js_mul angularVelocity minutesAhead;
          newLon = js_add lon0 displacement;
          lat = js_div (js_mul lat0 (Num pi)) (Num 180);
          lon = js_div (js_mul newLon (Num pi)) (Num 180);
          pos = \<lparr>vx = js_mul (js_mul orbitalRadius (js_cos lat)) (js_cos lon),
                 vy = js_mul (js_mul orbitalRadius (js_cos lat)) (js_sin lon),
                 vz = js_mul orbitalRadius (js_sin lat)\<rparr>;
          velocity = js_sqrt (js_div GM orbitalRadius)
      in \<lparr>st_position = pos,
          st_velocity = Some \<lparr>vx = Num 0, vy = velocity, vz = Num 0\<rparr>,
          st_timestamp = new_Date (js_add (Num (real (date_now E)))
                                          (js_mul minutesAhead (Num 60000)))\<rparr>)"

definition propagateSatellitePosition ::
  "'r env \<Rightarrow> 'r satellite \<Rightarrow> jsnum \<Rightarrow> js_error + resolved option" where
  "propagateSatellitePosition E sat minutesAhead =
     (if satrec sat \<noteq> None then propagateSatellite E sat minutesAhead
      else (case (altitude sat, latitude sat, longitude sat) of
              (Some alt, Some lat0, Some lon0) \<Rightarrow>
                 if truthy_num alt
                 then Inr (Some (propagateSimple E alt lat0 lon0 minutesAhead))
                 else Inr None
            | _ \<Rightarrow> Inr None))"

section \<open>Closest-approach search\<close>

text \<open>The local variables of \<open>findClosestApproach\<close>.\<close>

record search =
  minDistance :: jsnum
  closestTime :: "jsnum option"
  closestRelVel :: jsnum
  closestPositions :: "positions_pair option"

definition minutesAhead_of :: "nat \<Rightarrow> jsnum" where
  "minutesAhead_of step =
     js_mul (js_div (Num (real step)) (Num (real TIME_STEPS))) PREDICTION_HORIZON_MINUTES"

text \<open>One pass through the body of the time-stepping loop.\<close>

definition search_step ::
  "'r env \<Rightarrow> 'r satellite \<Rightarrow> 'r satellite \<Rightarrow> nat \<Rightarrow> search \<Rightarrow> js_error + search" where
  "search_step E s1 s2 step st =
     (let minutesAhead = minutesAhead_of step in
      case propagateSatellitePosition E s1 minutesAhead of
        Inl e \<Rightarrow> Inl e
      | Inr pos1 \<Rightarrow>
          (case propagateSatellitePosition E s2 minutesAhead of
             Inl e \<Rightarrow> Inl e
           | Inr pos2 \<Rightarrow>
               (case (pos1, pos2) of
                  (Some p1, Some p2) \<Rightarrow>
                    (let distance = calculateDistance3D (st_position p1) (st_position p2) in
                     if js_lt distance (minDistance st)
                     then Inr \<lparr>minDistance = distance,
                               closestTime = Some minutesAhead,
                               closestRelVel =
                                 (case (st_velocity p1, st_velocity p2) of
                                    (Some v1, Some v2) \<Rightarrow> calculateRelativeVelocity v1 v2
                                  | _ \<Rightarrow> closestRelVel st),
                               closestPositions =
                                 Some \<lparr>pos_sat1 = st_position p1, pos_sat2 = st_position p2\<rparr>\<rparr>
                     else Inr st)
                | _ \<Rightarrow> Inr st)))"

fun search_loop ::
  "'r env \<Rightarrow> 'r satellite \<Rightarrow> 'r satellite \<Rightarrow> nat list \<Rightarrow> search \<Rightarrow> js_error + search" where
  "search_loop E s1 s2 [] st = Inr st"
| "search_loop E s1 s2 (step # steps) st =
     (case search_step E s1 s2 step st of
        Inl e \<Rightarrow> Inl e
      | Inr st' \<Rightarrow> search_loop E s1 s2 steps st')"

definition search_init :: search where
  "search_init = \<lparr>minDistance = PInf, closestTime = None, closestRelVel = Num 0,
                   closestPositions = None\<rparr>"

definition findClosestApproach ::
  "'r env \<Rightarrow> 'r satellite \<Rightarrow> 'r satellite \<Rightarrow> js_error + closestApproach option" where
  "findClosestApproach E s1 s2 =
     (case search_loop E s1 s2 [0..<Suc TIME_STEPS] search_init of
        Inl e \<Rightarrow> Inl e
      | Inr st \<Rightarrow>
          if js_strict_eq (minDistance st) PInf then Inr None
          else Inr (Some \<lparr>missDistance = minDistance st,
                           timeToClosestApproach = closestTime st,
                           relativeVelocity = closestRelVel st,
                           positions = closestPositions st,
                           ca_timestamp =
                             new_Date (js_add (Num (real (date_now E)))
                                (js_mul (null_to_number (closestTime st)) (Num 60000)))\<rparr>))"

section \<open>Detection cycle\<close>

definition trackable :: "'r satellite \<Rightarrow> bool" where
  "trackable sat = (satrec sat \<noteq> None \<or> truthy_field (altitude sat))"

text \<open>The altitude test of the pairwise loop: true when the pair is skipped.\<close>

definition altitude_gate :: "'r satellite \<Rightarrow> 'r satellite \<Rightarrow> bool" where
  "altitude_gate s1 s2 =
     js_lt (Num 100) (js_abs (js_sub (undefined_to_number (altitude s1))
                                     (undefined_to_number (altitude s2))))"

definition make_conjunction ::
  "'r env \<Rightarrow> 'r satellite \<Rightarrow> 'r satellite \<Rightarrow> closestApproach \<Rightarrow> 'r conjunction" where
  "make_conjunction E s1 s2 ca =
     \<lparr>missDistance = missDistance ca,
      timeToClosestApproach = timeToClosestApproach ca,
      relativeVelocity = relativeVelocity ca,
      positions = positions ca,
      ca_timestamp = ca_timestamp ca,
      sat1 = s1,
      sat2 = s2,
      riskLevel = getRiskLevel (missDistance ca) (relativeVelocity ca),
      conj_id = show_name (name s1) @ ''-'' @ show_name (name s2) @ ''-''
                @ show_nat (date_now E)\<rparr>"

text \<open>The body of the inner loop for one pair: what it appends to \<open>conjunctions\<close>.\<close>

definition check_pair ::
  "'r env \<Rightarrow> 'r satellite \<Rightarrow> 'r satellite \<Rightarrow> js_error + 'r conjunction list" where
  "check_pair E s1 s2 =
     (if altitude_gate s1 s2 then Inr []
      else (case findClosestApproach E s1 s2 of
              Inl e \<Rightarrow> Inl e
            | Inr None \<Rightarrow> Inr []
            | Inr (Some ca) \<Rightarrow>
                if js_lt (missDistance ca) HIGH_RISK_THRESHOLD_KM
                then Inr [make_conjunction E s1 s2 ca]
                else Inr []))"

fun inner_loop ::
  "'r env \<Rightarrow> 'r satellite list \<Rightarrow> nat \<Rightarrow> nat list \<Rightarrow> 'r conjunction list
     \<Rightarrow> js_error + 'r conjunction list" where
  "inner_loop E ts i [] conjunctions = Inr conjunctions"
| "inner_loop E ts i (j # js) conjunctions =
     (case check_pair E (ts ! i) (ts ! j) of
        Inl e \<Rightarrow> Inl e
      | Inr new \<Rightarrow> inner_loop E ts i js (conjunctions @ new))"

fun outer_loop ::
  "'r env \<Rightarrow> 'r satellite list \<Rightarrow> nat list \<Rightarrow> 'r conjunction list
     \<Rightarrow> js_error + 'r conjunction list" where
  "outer_loop E ts [] conjunctions = Inr conjunctions"
| "outer_loop E ts (i # is) conjunctions =
     (case inner_loop E ts i [Suc i..<length ts] conjunctions of
        Inl e \<Rightarrow> Inl e
      | Inr conjunctions' \<Rightarrow> outer_loop E ts is conjunctions')"

text \<open>
  \<open>Array.prototype.sort\<close> with a comparator is a stable sort (ECMAScript 2019); it is
  modelled as the stable insertion sort in which an element moves behind another one
  only when the comparator, called on the two, is positive.
\<close>

fun js_insert :: "('a \<Rightarrow> 'a \<Rightarrow> jsnum) \<Rightarrow> 'a \<Rightarrow> 'a list \<Rightarrow> 'a list" where
  "js_insert cmp a [] = [a]"
| "js_insert cmp a (b # bs) =
     (if js_lt (Num 0) (cmp a b) then b # js_insert cmp a bs else a # b # bs)"

definition js_sort :: "('a \<Rightarrow> 'a \<Rightarrow> jsnum) \<Rightarrow> 'a list \<Rightarrow> 'a list" where
  "js_sort cmp xs = foldr (js_insert cmp) xs []"

definition by_time :: "'r conjunction \<Rightarrow> 'r conjunction \<Rightarrow> jsnum" where
  "by_time a b = js_sub (null_to_number (timeToClosestApproach a))
                        (null_to_number (timeToClosestApproach b))"

definition detectConjunctions ::
  "'r env \<Rightarrow> 'r satellite list \<Rightarrow> js_error + 'r conjunction list" where
  "detectConjunctions E satellites =
     (let trackableSats = filter trackable satellites in
      case outer_loop E trackableSats [0..<length trackableSats] [] of
        Inl e \<Rightarrow> Inl e
      | Inr conjunctions \<Rightarrow> Inr (take 5 (js_sort by_time conjunctions)))"

section \<open>Debris cascade and impact assessment\<close>

text \<open>
  The fragment made by one pass of the generating loop; \<open>k\<close> counts the calls of
  \<open>Math.random()\<close> made so far: three for the velocity, then one for the size.
\<close>

definition make_fragment ::
  "'r env \<Rightarrow> 'r conjunction \<Rightarrow> positions_pair \<Rightarrow> nat \<Rightarrow> fragment" where
  "make_fragment E c ps k =
     (let relVel = relativeVelocity c;
          deltaV = \<lparr>vx = js_mul (js_mul (js_sub (Num (random E k)) (Num 0.5)) relVel) (Num 0.3),
                    vy = js_mul (js_mul (js_sub (Num (random E (k + 1))) (Num 0.5)) relVel) (Num 0.3),
                    vz = js_mul (js_mul (js_sub (Num (random E (k + 2))) (Num 0.5)) relVel) (Num 0.3)\<rparr>
      in \<lparr>frag_position = Some (pos_sat1 ps),
          frag_velocity = deltaV,
          frag_size = js_mul (Num (random E (k + 3))) (Num 0.5),
          satellite1Name = name (sat1 c),
          satellite2Name = name (sat2 c),
          createdAt = Num (real (date_now E))\<rparr>)"

text \<open>
  The generating loop runs while \<open>i < fragmentCount\<close>, which never ends when the count
  is \<open>+Infinity\<close>: the result \<open>None\<close> is a call that does not return. Reading
  \<open>positions.sat1\<close> of a conjunction without positions is a TypeError.
\<close>

partial_function (option) debris_loop ::
  "'r env \<Rightarrow> 'r conjunction \<Rightarrow> jsnum \<Rightarrow> nat \<Rightarrow> nat \<Rightarrow> fragment list
     \<Rightarrow> (js_error + fragment list) option" where
  "debris_loop E c fragmentCount i k debris =
     (if js_lt (Num (real i)) fragmentCount
      then (case positions c of
              None \<Rightarrow> Some (Inl TypeError)
            | Some ps \<Rightarrow>
                debris_loop E c fragmentCount (Suc i) (k + 4)
                  (debris @ [make_fragment E c ps k]))
      else Some (Inr debris))"

definition simulateDebrisCascade ::
  "'r env \<Rightarrow> 'r conjunction \<Rightarrow> (js_error + fragment list) option" where
  "simulateDebrisCascade E c =
     (let fragmentCount = js_floor (js_add (Num 50) (js_mul (relativeVelocity c) (Num 10)))
      in debris_loop E c fragmentCount 0 0 [])"

definition inDebrisZone :: "fragment list \<Rightarrow> 'r satellite \<Rightarrow> bool" where
  "inDebrisZone debris sat =
     list_ex (\<lambda>frag. case (position sat, frag_position frag) of
                        (Some sp, Some fp) \<Rightarrow> js_lt (calculateDistance3D sp fp) (Num 100)
                      | _ \<Rightarrow> False) debris"

fun identifyAffectedSatellites :: "fragment list \<Rightarrow> 'r satellite list \<Rightarrow> 'r impact list" where
  "identifyAffectedSatellites debris [] = []"
| "identifyAffectedSatellites debris (sat # rest) =
     (if inDebrisZone debris sat
      then \<lparr>imp_satellite = sat, imp_riskLevel = ELEVATED, reason = ''In debris field path''\<rparr>
           # identifyAffectedSatellites debris rest
      else identifyAffectedSatellites debris rest)"

section \<open>Notions used to state the properties\<close>

text \<open>The urgency of a tier: CRITICAL is the most urgent, MODERATE the least.\<close>

fun urgency :: "risk \<Rightarrow> nat" where
  "urgency CRITICAL = 3"
| "urgency HIGH = 2"
| "urgency ELEVATED = 1"
| "urgency MODERATE = 0"

text \<open>
  An object whose SGP4 record comes with a timestamp, as every object built by
  \<open>parseTLEData\<close> does. Resolving any other object with a record is a TypeError.
\<close>

definition has_timestamp :: "'r satellite \<Rightarrow> bool" where
  "has_timestamp sat = (satrec sat \<noteq> None \<longrightarrow> timestamp sat \<noteq> None)"

text \<open>The resolved state of an object at a time offset, when there is one.\<close>

definition resolve :: "'r env \<Rightarrow> 'r satellite \<Rightarrow> jsnum \<Rightarrow> resolved option" where
  "resolve E sat t = (case propagateSatellitePosition E sat t of Inl e \<Rightarrow> None | Inr r \<Rightarrow> r)"

text \<open>The distance sampled at step \<open>k\<close>, when both objects resolve there.\<close>

definition sample_distance :: "'r env \<Rightarrow> 'r satellite \<Rightarrow> 'r satellite \<Rightarrow> nat \<Rightarrow> jsnum option" where
  "sample_distance E s1 s2 k =
     (case (resolve E s1 (minutesAhead_of k), resolve E s2 (minutesAhead_of k)) of
        (Some p1, Some p2) \<Rightarrow> Some (calculateDistance3D (st_position p1) (st_position p2))
      | _ \<Rightarrow> None)"

text \<open>Among the first \<open>n\<close> samples none has a distance below \<open>+Infinity\<close>.\<close>

definition no_finite_sample :: "'r env \<Rightarrow> 'r satellite \<Rightarrow> 'r satellite \<Rightarrow> nat \<Rightarrow> bool" where
  "no_finite_sample E s1 s2 n =
     (\<forall>j<n. \<forall>d. sample_distance E s1 s2 j = Some d \<longrightarrow> \<not> js_lt d PInf)"

text \<open>
  Among the first \<open>n\<close> samples, step \<open>k\<close> has a finite distance, no sample is closer,
  and every earlier sample with a finite distance is strictly farther.
\<close>

definition closest_sample :: "'r env \<Rightarrow> 'r satellite \<Rightarrow> 'r satellite \<Rightarrow> nat \<Rightarrow> nat \<Rightarrow> bool" where
  "closest_sample E s1 s2 n k =
     (k < n \<and> (\<exists>d. sample_distance E s1 s2 k = Some d \<and> js_lt d PInf
        \<and> (\<forall>j<n. \<forall>d'. sample_distance E s1 s2 j = Some d' \<longrightarrow> \<not> js_lt d' d)
        \<and> (\<forall>j<k. \<forall>d'. sample_distance E s1 s2 j = Some d' \<longrightarrow> js_lt d' PInf \<longrightarrow> js_lt d d')))"

text \<open>
  The search state, and the returned record, hold what was sampled at step \<open>k\<close>: the
  distance, the time offset, both positions, and the norm of the velocity difference
  when both velocities are there.
\<close>

definition records_sample :: "'r env \<Rightarrow> 'r satellite \<Rightarrow> 'r satellite \<Rightarrow> nat \<Rightarrow> search \<Rightarrow> bool" where
  "records_sample E s1 s2 k st =
     (\<exists>p1 p2. resolve E s1 (minutesAhead_of k) = Some p1
        \<and> resolve E s2 (minutesAhead_of k) = Some p2
        \<and> minDistance st = calculateDistance3D (st_position p1) (st_position p2)
        \<and> closestTime st = Some (minutesAhead_of k)
        \<and> closestPositions st = Some \<lparr>pos_sat1 = st_position p1, pos_sat2 = st_position p2\<rparr>
        \<and> (\<forall>v1 v2. st_velocity p1 = Some v1 \<and> st_velocity p2 = Some v2
              \<longrightarrow> closestRelVel st = calculateRelativeVelocity v1 v2))"

definition reports_sample ::
  "'r env \<Rightarrow> 'r satellite \<Rightarrow> 'r satellite \<Rightarrow> nat \<Rightarrow> closestApproach \<Rightarrow> bool" where
  "reports_sample E s1 s2 k ca =
     (\<exists>p1 p2. resolve E s1 (minutesAhead_of k) = Some p1
        \<and> resolve E s2 (minutesAhead_of k) = Some p2
        \<and> missDistance ca = calculateDistance3D (st_position p1) (st_position p2)
        \<and> timeToClosestApproach ca = Some (minutesAhead_of k)
        \<and> positions ca = Some \<lparr>pos_sat1 = st_position p1, pos_sat2 = st_position p2\<rparr>
        \<and> (\<forall>v1 v2. st_velocity p1 = Some v1 \<and> st_velocity p2 = Some v2
              \<longrightarrow> relativeVelocity ca = calculateRelativeVelocity v1 v2))"

text \<open>The state after a sample has improved on the minimum.\<close>

definition improve :: "resolved \<Rightarrow> resolved \<Rightarrow> jsnum \<Rightarrow> search \<Rightarrow> search" where
  "improve p1 p2 t st =
     \<lparr>minDistance = calculateDistance3D (st_position p1) (st_position p2),
      closestTime = Some t,
      closestRelVel = (case (st_velocity p1, st_velocity p2) of
                         (Some v1, Some v2) \<Rightarrow> calculateRelativeVelocity v1 v2
                       | _ \<Rightarrow> closestRelVel st),
      closestPositions = Some \<lparr>pos_sat1 = st_position p1, pos_sat2 = st_position p2\<rparr>\<rparr>"

definition euclid :: "real \<Rightarrow> real \<Rightarrow> real \<Rightarrow> real \<Rightarrow> real \<Rightarrow> real \<Rightarrow> real" where
  "euclid a1 b1 c1 a2 b2 c2 = sqrt ((a1 - a2)\<^sup>2 + (b1 - b2)\<^sup>2 + (c1 - c2)\<^sup>2)"

text \<open>
  The index pairs of the pairwise loop in the order it visits them, and what the loop
  appends for one of them when the pair raises no error.
\<close>

definition visited_pairs :: "nat \<Rightarrow> (nat \<times> nat) list" where
  "visited_pairs n = concat (map (\<lambda>i. map (Pair i) [Suc i..<n]) [0..<n])"

definition pair_conjunctions :: "'r env \<Rightarrow> 'r satellite list \<Rightarrow> nat \<times> nat \<Rightarrow> 'r conjunction list" where
  "pair_conjunctions E ts p =
     (case check_pair E (ts ! fst p) (ts ! snd p) of Inl e \<Rightarrow> [] | Inr cs \<Rightarrow> cs)"

text \<open>
  The time and the distance of a conjunction as reals, and the order of the ranking as
  the specification words it: soonest first, ties by smaller miss distance first.
\<close>

definition time_key :: "'r conjunction \<Rightarrow> real" where
  "time_key c = (case timeToClosestApproach c of Some (Num t) \<Rightarrow> t | _ \<Rightarrow> 0)"

definition miss_key :: "'r conjunction \<Rightarrow> real" where
  "miss_key c = (case missDistance c of Num d \<Rightarrow> d | _ \<Rightarrow> 0)"

definition tie_broken_order :: "'r conjunction list \<Rightarrow> bool" where
  "tie_broken_order cs =
     sorted_wrt (\<lambda>a b. time_key a < time_key b
                      \<or> (time_key a = time_key b \<and> miss_key a \<le> miss_key b)) cs"

text \<open>The objects in the debris footprint, and the record made for one of them.\<close>

definition within_debris :: "fragment list \<Rightarrow> 'r satellite \<Rightarrow> bool" where
  "within_debris debris sat =
     (\<exists>sp. position sat = Some sp
        \<and> (\<exists>frag\<in>set debris. \<exists>fp. frag_position frag = Some fp
              \<and> js_lt (calculateDistance3D sp fp) (Num 100)))"

definition impact_record :: "'r satellite \<Rightarrow> 'r impact" where
  "impact_record sat =
     \<lparr>imp_satellite = sat, imp_riskLevel = ELEVATED, reason = ''In debris field path''\<rparr>"

section \<open>Example snapshots\<close>

text \<open>
  A propagator under which the object with record \<open>rec\<close> stays at
  \<open>(7000 + rec/4, 0, 0)\<close> km with velocity \<open>(0, 7.5, 0)\<close> km/s, a clock and a random
  source that always returns \<open>1/4\<close>; objects with an SGP4 record, a name and an optional
  altitude; and an object with neither record nor altitude.
\<close>

definition formation_env :: "nat env" where
  "formation_env =
     \<lparr>sgp4 = (\<lambda>rec t. \<lparr>pv_position = Some \<lparr>vx = Num (7000 + real rec / 4), vy = Num 0, vz = Num 0\<rparr>,
                        pv_velocity = Some \<lparr>vx = Num 0, vy = Num 7.5, vz = Num 0\<rparr>\<rparr>),
      date_now = 1700000000000,
      random = (\<lambda>n. 1 / 4)\<rparr>"

definition tle_sat :: "string \<Rightarrow> nat \<Rightarrow> jsnum option \<Rightarrow> nat satellite" where
  "tle_sat nm rec alt =
     \<lparr>name = Some nm, satrec = Some rec, altitude = alt, latitude = None, longitude = None,
      position = Some \<lparr>vx = Num (7000 + real rec / 4), vy = Num 0, vz = Num 0\<rparr>,
      timestamp = Some (Num 1700000000000)\<rparr>"

definition bare_sat :: "nat satellite" where
  "bare_sat = \<lparr>name = Some ''X'', satrec = None, altitude = None, latitude = Some (Num 10),
               longitude = Some (Num 20), position = None, timestamp = None\<rparr>"

definition tie_snapshot :: "nat satellite list" where
  "tie_snapshot = [tle_sat ''A'' 0 (Some (Num 629)), tle_sat ''B'' 2 (Some (Num 629)),
                   tle_sat ''C'' 1 (Some (Num 629))]"

definition shell_snapshot :: "nat satellite list" where
  "shell_snapshot = [tle_sat ''A'' 0 (Some (Num 550)), tle_sat ''B'' 0 (Some (Num 700)),
                     tle_sat ''C'' 1 (Some (Num 560))]"

definition formation_approach :: "nat \<Rightarrow> nat \<Rightarrow> closestApproach" where
  "formation_approach r1 r2 =
     \<lparr>missDistance = Num (\<bar>real r1 - real r2\<bar> / 4),
      timeToClosestApproach = Some (Num 0),
      relativeVelocity = Num 0,
      positions = Some \<lparr>pos_sat1 = \<lparr>vx = Num (7000 + real r1 / 4), vy = Num 0, vz = Num 0\<rparr>,
                        pos_sat2 = \<lparr>vx = Num (7000 + real r2 / 4), vy = Num 0, vz = Num 0\<rparr>\<rparr>,
      ca_timestamp = Num 1700000000000\<rparr>"

definition head_on_positions :: positions_pair where
  "head_on_positions = \<lparr>pos_sat1 = \<lparr>vx = Num 7000, vy = Num 0, vz = Num 0\<rparr>,
                         pos_sat2 = \<lparr>vx = Num 7000, vy = Num 0, vz = Num 0\<rparr>\<rparr>"

definition head_on :: "nat conjunction" where
  "head_on = make_conjunction formation_env (tle_sat ''A'' 0 None) (tle_sat ''B'' 0 None)
               ((formation_approach 0 0)\<lparr>relativeVelocity := Num 10\<rparr>)"

definition shard :: "real \<Rightarrow> fragment" where
  "shard a = \<lparr>frag_position = Some \<lparr>vx = Num a, vy = Num 0, vz = Num 0\<rparr>,
              frag_velocity = \<lparr>vx = Num 0, vy = Num 0, vz = Num 0\<rparr>,
              frag_size = Num (1 / 4), satellite1Name = Some ''A'', satellite2Name = Some ''B'',
              createdAt = Num 1700000000000\<rparr>"

text \<open>
  An object as \<open>fetchSatellitesAbove\<close> builds it: a name and an SGP4 record, no altitude
  and no timestamp. And a propagator that returns velocities at the first sample only,
  where the two objects are farther apart than at every later sample.
\<close>

definition n2yo_sat :: "string \<Rightarrow> nat \<Rightarrow> nat satellite" where
  "n2yo_sat nm rec =
     \<lparr>name = Some nm, satrec = Some rec, altitude = None, latitude = None, longitude = None,
      position = None, timestamp = None\<rparr>"

definition fading_env :: "nat env" where
  "fading_env =
     \<lparr>sgp4 = (\<lambda>rec t.
         if t = Num 1700000000000
         then \<lparr>pv_position = Some \<lparr>vx = Num (7000 + real rec / 4), vy = Num 0, vz = Num 0\<rparr>,
               pv_velocity = Some \<lparr>vx = Num 0, vy = Num (7.5 - 4 * real rec), vz = Num 0\<rparr>\<rparr>
         else \<lparr>pv_position = Some \<lparr>vx = Num (7000 + real rec / 8), vy = Num 0, vz = Num 0\<rparr>,
               pv_velocity = None\<rparr>),
      date_now = 1700000000000,
      random = (\<lambda>n. 1 / 4)\<rparr>"

section \<open>Facts about JavaScript numbers\<close>

lemma js_lt_Num_iff: "js_lt m (Num b) \<longleftrightarrow> m = NInf \<or> (\<exists>a. m = Num a \<and> a < b)"
  by (cases m) auto

lemma js_lt_irrefl [simp]: "\<not> js_lt a a"
  by (cases a) auto

lemma js_lt_PInf: "js_lt a b \<Longrightarrow> js_lt a PInf"
  by (cases a; cases b) auto

lemma js_lt_below: "js_lt a b \<Longrightarrow> \<not> js_lt c b \<Longrightarrow> js_lt c PInf \<Longrightarrow> js_lt a c"
  by (cases a; cases b; cases c) auto

lemma js_lt_trans: "js_lt a b \<Longrightarrow> js_lt b c \<Longrightarrow> js_lt a c"
  by (cases a; cases b; cases c) auto

lemma js_sqrt_range: "js_lt (js_sqrt a) PInf \<Longrightarrow> \<exists>d. js_sqrt a = Num d \<and> 0 \<le> d"
  by (cases a) (auto split: if_splits)

lemma calculateDistance3D_finite:
  "calculateDistance3D \<lparr>vx = Num a1, vy = Num b1, vz = Num c1\<rparr>
                       \<lparr>vx = Num a2, vy = Num b2, vz = Num c2\<rparr>
   = Num (euclid a1 b1 c1 a2 b2 c2)"
proof -
  have "\<not> (a1 - a2) * (a1 - a2) + (b1 - b2) * (b1 - b2) + (c1 - c2) * (c1 - c2) < 0"
    by (simp add: not_less add_nonneg_nonneg)
  then show ?thesis
    by (simp add: calculateDistance3D_def js_sub_def euclid_def power2_eq_square)
qed

lemma calculateRelativeVelocity_finite:
  "calculateRelativeVelocity \<lparr>vx = Num a1, vy = Num b1, vz = Num c1\<rparr>
                             \<lparr>vx = Num a2, vy = Num b2, vz = Num c2\<rparr>
   = Num (euclid a1 b1 c1 a2 b2 c2)"
proof -
  have "\<not> (a1 - a2) * (a1 - a2) + (b1 - b2) * (b1 - b2) + (c1 - c2) * (c1 - c2) < 0"
    by (simp add: not_less add_nonneg_nonneg)
  then show ?thesis
    by (simp add: calculateRelativeVelocity_def js_sub_def euclid_def power2_eq_square)
qed

lemma calculateDistance3D_range:
  "js_lt (calculateDistance3D p q) PInf \<Longrightarrow> \<exists>d. calculateDistance3D p q = Num d \<and> 0 \<le> d"
  unfolding calculateDistance3D_def Let_def by (rule js_sqrt_range)

lemma distance_self:
  "calculateDistance3D \<lparr>vx = Num a, vy = Num b, vz = Num c\<rparr> \<lparr>vx = Num a, vy = Num b, vz = Num c\<rparr>
     = Num 0"
  by (simp add: calculateDistance3D_finite euclid_def)

lemma sqrt_200: "sqrt 40000 = 200"
  using real_sqrt_abs [of 200] by simp

section \<open>Risk classifier\<close>

text \<open>
  Claim C2. The risk classifier is a function of the miss distance alone and follows the
  table: below 0.1 km CRITICAL, below 0.5 km HIGH, below 1.0 km ELEVATED, otherwise
  MODERATE, also at the boundary values 0.099, 0.1, 0.499, 0.5, 0.999 and 1.0. The tier
  never becomes less urgent when the miss distance decreases, and the relative velocity
  never changes it.
\<close>

theorem risk_classifier_table:
  "getRiskLevel (Num d) v =
     (if d < 0.1 then CRITICAL else if d < 0.5 then HIGH
      else if d < 1.0 then ELEVATED else MODERATE)
   \<and> getRiskLevel (Num 0.099) v = CRITICAL
   \<and> getRiskLevel (Num 0.1) v = HIGH
   \<and> getRiskLevel (Num 0.499) v = HIGH
   \<and> getRiskLevel (Num 0.5) v = ELEVATED
   \<and> getRiskLevel (Num 0.999) v = ELEVATED
   \<and> getRiskLevel (Num 1.0) v = MODERATE
   \<and> (d1 \<le> d2 \<longrightarrow> urgency (getRiskLevel (Num d2) v2) \<le> urgency (getRiskLevel (Num d1) v1))
   \<and> (js_lt m1 m2 \<longrightarrow> urgency (getRiskLevel m2 v2) \<le> urgency (getRiskLevel m1 v1))
   \<and> getRiskLevel m v = getRiskLevel m v'"
proof -
  have mono: "urgency (getRiskLevel m2 v2) \<le> urgency (getRiskLevel m1 v1)" if "js_lt m1 m2"
  proof -
    have "js_lt m1 (Num b)" if "js_lt m2 (Num b)" for b
      using js_lt_trans [OF \<open>js_lt m1 m2\<close> that] .
    then show ?thesis by (simp add: getRiskLevel_def)
  qed
  show ?thesis using mono by (simp add: getRiskLevel_def)
qed

theorem risk_classifier_table_witness:
  "(0.05::real) \<le> 0.7 \<and> js_lt (Num 0.05) (Num 0.7)
   \<and> urgency (getRiskLevel (Num 0.7) NaN) \<le> urgency (getRiskLevel (Num 0.05) PInf)
   \<and> getRiskLevel (Num 0.7) NaN = ELEVATED \<and> getRiskLevel (Num 0.05) PInf = CRITICAL"
  using risk_classifier_table [of "0.05" PInf "0.05" "0.7" NaN PInf "Num 0.05" "Num 0.7" "Num 0.7" NaN]
  by (simp add: getRiskLevel_def)

section \<open>Closest-approach search\<close>

lemma minutesAhead_of_eq: "minutesAhead_of k = Num (real k)"
  by (simp add: minutesAhead_of_def TIME_STEPS_def PREDICTION_HORIZON_MINUTES_def)

lemma propagate_has_timestamp:
  "has_timestamp sat \<Longrightarrow> propagateSatellitePosition E sat t = Inr (resolve E sat t)"
  by (auto simp: has_timestamp_def resolve_def propagateSatellitePosition_def propagateSatellite_def Let_def
      split: option.splits)

lemma propagate_no_timestamp:
  "\<not> has_timestamp sat \<Longrightarrow> propagateSatellitePosition E sat t = Inl TypeError"
  by (auto simp: has_timestamp_def propagateSatellitePosition_def propagateSatellite_def)

lemma search_step_eq:
  assumes "has_timestamp s1" "has_timestamp s2"
  shows "search_step E s1 s2 k st =
     Inr (case (resolve E s1 (minutesAhead_of k), resolve E s2 (minutesAhead_of k)) of
            (Some p1, Some p2) \<Rightarrow>
               if js_lt (calculateDistance3D (st_position p1) (st_position p2)) (minDistance st)
               then improve p1 p2 (minutesAhead_of k) st else st
          | _ \<Rightarrow> st)"
  using assms
  by (simp add: search_step_def propagate_has_timestamp Let_def improve_def split: option.splits)

lemma search_loop_snoc:
  "search_loop E s1 s2 (ks @ [k]) st =
     (case search_loop E s1 s2 ks st of Inl e \<Rightarrow> Inl e | Inr st' \<Rightarrow> search_step E s1 s2 k st')"
  by (induction ks arbitrary: st) (auto split: sum.splits)

lemma search_loop_invariant:
  assumes e: "has_timestamp s1" "has_timestamp s2"
  shows "\<exists>st. search_loop E s1 s2 [0..<n] search_init = Inr st
           \<and> ((st = search_init \<and> no_finite_sample E s1 s2 n)
               \<or> (\<exists>k. closest_sample E s1 s2 n k \<and> records_sample E s1 s2 k st))"
proof (induction n)
  case 0
  show ?case by (simp add: no_finite_sample_def)
next
  case (Suc n)
  then obtain st where run: "search_loop E s1 s2 [0..<n] search_init = Inr st"
    and inv: "(st = search_init \<and> no_finite_sample E s1 s2 n)
              \<or> (\<exists>k. closest_sample E s1 s2 n k \<and> records_sample E s1 s2 k st)"
    by blast
  let ?t = "minutesAhead_of n"
  have loop: "search_loop E s1 s2 [0..<Suc n] search_init = search_step E s1 s2 n st"
    by (simp add: search_loop_snoc run)
  have bound: "\<not> js_lt d' (minDistance st)"
    if "j < n" "sample_distance E s1 s2 j = Some d'" for j d'
    using inv that
    by (auto simp: no_finite_sample_def closest_sample_def records_sample_def sample_distance_def
        search_init_def)
  show ?case
  proof (cases "sample_distance E s1 s2 n")
    case None
    then have "search_step E s1 s2 n st = Inr st"
      by (auto simp: search_step_eq [OF e] sample_distance_def split: option.splits)
    moreover have "no_finite_sample E s1 s2 (Suc n)" if "no_finite_sample E s1 s2 n"
      using that None by (auto simp: no_finite_sample_def less_Suc_eq)
    moreover have "closest_sample E s1 s2 (Suc n) k" if "closest_sample E s1 s2 n k" for k
      using that None by (auto simp: closest_sample_def less_Suc_eq)
    ultimately show ?thesis using inv loop by auto
  next
    case (Some d)
    then obtain p1 p2 where p: "resolve E s1 ?t = Some p1" "resolve E s2 ?t = Some p2"
      and d: "d = calculateDistance3D (st_position p1) (st_position p2)"
      by (auto simp: sample_distance_def split: option.splits)
    show ?thesis
    proof (cases "js_lt d (minDistance st)")
      case False
      then have "search_step E s1 s2 n st = Inr st"
        by (simp add: search_step_eq [OF e] p d)
      moreover have "no_finite_sample E s1 s2 (Suc n)"
        if "no_finite_sample E s1 s2 n" "st = search_init"
        using that Some False by (auto simp: no_finite_sample_def less_Suc_eq search_init_def)
      moreover have "closest_sample E s1 s2 (Suc n) k"
        if "closest_sample E s1 s2 n k" "records_sample E s1 s2 k st" for k
        using that Some False
        by (auto simp: closest_sample_def less_Suc_eq records_sample_def sample_distance_def)
      ultimately show ?thesis using inv loop by auto
    next
      case True
      let ?st = "improve p1 p2 ?t st"
      have step: "search_step E s1 s2 n st = Inr ?st"
        using True by (simp add: search_step_eq [OF e] p d)
      have rec: "records_sample E s1 s2 n ?st"
        by (auto simp: records_sample_def p improve_def)
      have fin: "js_lt d PInf" using True by (rule js_lt_PInf)
      have lower: "\<not> js_lt d' d" if "j < Suc n" "sample_distance E s1 s2 j = Some d'" for j d'
      proof (cases "j = n")
        case True then show ?thesis using that Some by simp
      next
        case False
        then have "j < n" using that by simp
        then have "\<not> js_lt d' (minDistance st)" using that bound by blast
        then show ?thesis using \<open>js_lt d (minDistance st)\<close> js_lt_trans by blast
      qed
      have first: "js_lt d d'"
        if "j < n" "sample_distance E s1 s2 j = Some d'" "js_lt d' PInf" for j d'
        using js_lt_below [OF True bound [OF that(1,2)] that(3)] .
      have "closest_sample E s1 s2 (Suc n) n"
        using Some fin lower first by (auto simp: closest_sample_def)
      then show ?thesis using loop step rec by auto
    qed
  qed
qed

lemma findClosestApproach_cases:
  assumes e: "has_timestamp s1" "has_timestamp s2"
  shows "(findClosestApproach E s1 s2 = Inr None \<and> no_finite_sample E s1 s2 (Suc TIME_STEPS))
       \<or> (\<exists>ca k. findClosestApproach E s1 s2 = Inr (Some ca)
             \<and> closest_sample E s1 s2 (Suc TIME_STEPS) k \<and> reports_sample E s1 s2 k ca)"
proof -
  obtain st where run: "search_loop E s1 s2 [0..<Suc TIME_STEPS] search_init = Inr st"
    and inv: "(st = search_init \<and> no_finite_sample E s1 s2 (Suc TIME_STEPS))
              \<or> (\<exists>k. closest_sample E s1 s2 (Suc TIME_STEPS) k \<and> records_sample E s1 s2 k st)"
    using search_loop_invariant [OF e, of E "Suc TIME_STEPS"] by blast
  from inv show ?thesis
  proof
    assume "st = search_init \<and> no_finite_sample E s1 s2 (Suc TIME_STEPS)"
    then have "minDistance st = PInf" and nf: "no_finite_sample E s1 s2 (Suc TIME_STEPS)"
      by (simp_all add: search_init_def)
    then have "findClosestApproach E s1 s2 = Inr None"
      by (simp add: findClosestApproach_def run js_strict_eq_def del: upt_Suc)
    then show ?thesis using nf by blast
  next
    assume "\<exists>k. closest_sample E s1 s2 (Suc TIME_STEPS) k \<and> records_sample E s1 s2 k st"
    then obtain k where k: "closest_sample E s1 s2 (Suc TIME_STEPS) k"
      and r: "records_sample E s1 s2 k st" by blast
    have "js_lt (minDistance st) PInf"
      using k r by (auto simp: closest_sample_def records_sample_def sample_distance_def)
    then have ne: "\<not> js_strict_eq (minDistance st) PInf"
      by (auto simp: js_strict_eq_def)
    let ?ca = "\<lparr>missDistance = minDistance st,
                timeToClosestApproach = closestTime st,
                relativeVelocity = closestRelVel st,
                positions = closestPositions st,
                ca_timestamp = new_Date (js_add (Num (real (date_now E)))
                   (js_mul (null_to_number (closestTime st)) (Num 60000)))\<rparr>"
    have "findClosestApproach E s1 s2 = Inr (Some ?ca)"
      using ne by (simp add: findClosestApproach_def run del: upt_Suc)
    moreover have "reports_sample E s1 s2 k ?ca"
      using r by (simp add: records_sample_def reports_sample_def)
    ultimately show ?thesis using k by blast
  qed
qed

lemma findClosestApproach_error:
  assumes "\<not> (has_timestamp s1 \<and> has_timestamp s2)"
  shows "findClosestApproach E s1 s2 = Inl TypeError"
proof -
  have "search_step E s1 s2 0 search_init = Inl TypeError"
    using assms
    by (cases "has_timestamp s1")
       (auto simp: search_step_def Let_def propagate_no_timestamp propagate_has_timestamp)
  then show ?thesis
    by (simp add: findClosestApproach_def upt_rec [of 0] del: upt_Suc)
qed

lemma findClosestApproach_Some:
  assumes "findClosestApproach E s1 s2 = Inr (Some ca)"
  shows "has_timestamp s1 \<and> has_timestamp s2
         \<and> (\<exists>k. closest_sample E s1 s2 (Suc TIME_STEPS) k \<and> reports_sample E s1 s2 k ca)"
proof -
  have e: "has_timestamp s1 \<and> has_timestamp s2"
    using assms findClosestApproach_error [of s1 s2 E] by auto
  then show ?thesis
    using findClosestApproach_cases [of s1 s2 E] assms by auto
qed

lemma findClosestApproach_bounds:
  assumes "findClosestApproach E s1 s2 = Inr (Some ca)"
  shows "\<exists>d k. missDistance ca = Num d \<and> 0 \<le> d \<and> k \<le> TIME_STEPS
           \<and> timeToClosestApproach ca = Some (Num (real k)) \<and> positions ca \<noteq> None"
proof -
  from findClosestApproach_Some [OF assms] obtain k where
    k: "closest_sample E s1 s2 (Suc TIME_STEPS) k" and r: "reports_sample E s1 s2 k ca"
    by blast
  from k r have "js_lt (missDistance ca) PInf"
    by (auto simp: closest_sample_def reports_sample_def sample_distance_def)
  moreover from r obtain p q where "missDistance ca = calculateDistance3D p q"
    by (auto simp: reports_sample_def)
  ultimately obtain d where "missDistance ca = Num d" "0 \<le> d"
    using calculateDistance3D_range by metis
  moreover have "k \<le> TIME_STEPS" using k by (simp add: closest_sample_def)
  moreover have "timeToClosestApproach ca = Some (Num (real k))" "positions ca \<noteq> None"
    using r by (auto simp: reports_sample_def minutesAhead_of_eq)
  ultimately show ?thesis by blast
qed

text \<open>The search on two objects whose resolved position and velocity never change.\<close>

lemma search_step_static:
  assumes "\<And>t. \<exists>ts. propagateSatellitePosition E s1 t
              = Inr (Some \<lparr>st_position = q1, st_velocity = w1, st_timestamp = ts\<rparr>)"
    and "\<And>t. \<exists>ts. propagateSatellitePosition E s2 t
              = Inr (Some \<lparr>st_position = q2, st_velocity = w2, st_timestamp = ts\<rparr>)"
  shows "search_step E s1 s2 k st =
           Inr (if js_lt (calculateDistance3D q1 q2) (minDistance st)
                then \<lparr>minDistance = calculateDistance3D q1 q2,
                      closestTime = Some (minutesAhead_of k),
                      closestRelVel = (case (w1, w2) of
                                         (Some v1, Some v2) \<Rightarrow> calculateRelativeVelocity v1 v2
                                       | _ \<Rightarrow> closestRelVel st),
                      closestPositions = Some \<lparr>pos_sat1 = q1, pos_sat2 = q2\<rparr>\<rparr>
                else st)"
proof -
  obtain ts1 ts2 where
    "propagateSatellitePosition E s1 (minutesAhead_of k)
       = Inr (Some \<lparr>st_position = q1, st_velocity = w1, st_timestamp = ts1\<rparr>)"
    "propagateSatellitePosition E s2 (minutesAhead_of k)
       = Inr (Some \<lparr>st_position = q2, st_velocity = w2, st_timestamp = ts2\<rparr>)"
    using assms by metis
  then show ?thesis by (simp add: search_step_def Let_def)
qed

lemma search_loop_settled:
  assumes "\<And>k. search_step E s1 s2 k st = Inr st"
  shows "search_loop E s1 s2 ks st = Inr st"
  by (induction ks) (simp_all add: assms)

lemma findClosestApproach_static:
  assumes p1: "\<And>t. \<exists>ts. propagateSatellitePosition E s1 t
              = Inr (Some \<lparr>st_position = q1, st_velocity = w1, st_timestamp = ts\<rparr>)"
    and p2: "\<And>t. \<exists>ts. propagateSatellitePosition E s2 t
              = Inr (Some \<lparr>st_position = q2, st_velocity = w2, st_timestamp = ts\<rparr>)"
    and fin: "js_lt (calculateDistance3D q1 q2) PInf"
  shows "findClosestApproach E s1 s2 =
           Inr (Some \<lparr>missDistance = calculateDistance3D q1 q2,
                       timeToClosestApproach = Some (Num 0),
                       relativeVelocity = (case (w1, w2) of
                                             (Some v1, Some v2) \<Rightarrow> calculateRelativeVelocity v1 v2
                                           | _ \<Rightarrow> Num 0),
                       positions = Some \<lparr>pos_sat1 = q1, pos_sat2 = q2\<rparr>,
                       ca_timestamp = new_Date (Num (real (date_now E)))\<rparr>)"
proof -
  define d where "d = calculateDistance3D q1 q2"
  define rv where "rv = (case (w1, w2) of
                           (Some v1, Some v2) \<Rightarrow> calculateRelativeVelocity v1 v2
                         | _ \<Rightarrow> Num 0)"
  define st where "st = \<lparr>minDistance = d, closestTime = Some (Num 0), closestRelVel = rv,
                          closestPositions = Some \<lparr>pos_sat1 = q1, pos_sat2 = q2\<rparr>\<rparr>"
  note step = search_step_static [OF p1 p2]
  have first: "search_step E s1 s2 0 search_init = Inr st"
    using fin
    by (simp add: step search_init_def minutesAhead_of_eq st_def d_def rv_def split: option.splits)
  have rest: "search_loop E s1 s2 [Suc 0..<Suc TIME_STEPS] st = Inr st"
  proof (rule search_loop_settled)
    fix k show "search_step E s1 s2 k st = Inr st"
      by (simp add: step st_def d_def)
  qed
  have "[0..<Suc TIME_STEPS] = 0 # [Suc 0..<Suc TIME_STEPS]"
    by (simp add: upt_rec [of 0] del: upt_Suc)
  then have "search_loop E s1 s2 [0..<Suc TIME_STEPS] search_init = Inr st"
    by (simp add: first rest del: upt_Suc)
  moreover have "\<not> js_strict_eq (minDistance st) PInf"
    using fin by (auto simp: js_strict_eq_def st_def d_def)
  ultimately show ?thesis
    by (simp add: findClosestApproach_def st_def d_def rv_def null_to_number_def del: upt_Suc)
qed

lemma tle_sat_propagate:
  "\<exists>ts. propagateSatellitePosition formation_env (tle_sat nm rec alt) t
     = Inr (Some \<lparr>st_position = \<lparr>vx = Num (7000 + real rec / 4), vy = Num 0, vz = Num 0\<rparr>,
                  st_velocity = Some \<lparr>vx = Num 0, vy = Num 7.5, vz = Num 0\<rparr>,
                  st_timestamp = ts\<rparr>)"
  by (simp add: propagateSatellitePosition_def propagateSatellite_def tle_sat_def formation_env_def)

lemma tle_sat_closest:
  "findClosestApproach formation_env (tle_sat n1 r1 a1) (tle_sat n2 r2 a2) =
     Inr (Some \<lparr>missDistance = Num (\<bar>real r1 - real r2\<bar> / 4),
                 timeToClosestApproach = Some (Num 0),
                 relativeVelocity = Num 0,
                 positions = Some \<lparr>pos_sat1 = \<lparr>vx = Num (7000 + real r1 / 4), vy = Num 0, vz = Num 0\<rparr>,
                                   pos_sat2 = \<lparr>vx = Num (7000 + real r2 / 4), vy = Num 0, vz = Num 0\<rparr>\<rparr>,
                 ca_timestamp = Num 1700000000000\<rparr>)"
proof -
  have d: "calculateDistance3D \<lparr>vx = Num (7000 + real r1 / 4), vy = Num 0, vz = Num 0\<rparr>
            \<lparr>vx = Num (7000 + real r2 / 4), vy = Num 0, vz = Num 0\<rparr> = Num (\<bar>real r1 - real r2\<bar> / 4)"
  proof -
    have "sqrt ((real r1 / 4 - real r2 / 4)\<^sup>2) = \<bar>real r1 / 4 - real r2 / 4\<bar>"
      by (rule real_sqrt_abs)
    also have "\<dots> = \<bar>real r1 - real r2\<bar> / 4"
      by (simp add: diff_divide_distrib [symmetric])
    finally have "sqrt ((real r1 / 4 - real r2 / 4)\<^sup>2) = \<bar>real r1 - real r2\<bar> / 4" .
    then show ?thesis by (simp add: calculateDistance3D_finite euclid_def)
  qed
  have v: "calculateRelativeVelocity \<lparr>vx = Num 0, vy = Num 7.5, vz = Num 0\<rparr>
             \<lparr>vx = Num 0, vy = Num 7.5, vz = Num 0\<rparr> = Num 0"
    by (simp add: calculateRelativeVelocity_finite euclid_def)
  have n: "new_Date (Num (real (date_now formation_env))) = Num 1700000000000"
    by (simp add: new_Date_def formation_env_def)
  have "js_lt (calculateDistance3D \<lparr>vx = Num (7000 + real r1 / 4), vy = Num 0, vz = Num 0\<rparr>
            \<lparr>vx = Num (7000 + real r2 / 4), vy = Num 0, vz = Num 0\<rparr>) PInf"
    by (simp add: d)
  from findClosestApproach_static [OF tle_sat_propagate tle_sat_propagate this]
  show ?thesis
    by (simp add: d n calculateRelativeVelocity_finite euclid_def)
qed

text \<open>
  On two objects that resolve without error, the search samples both at the offsets
  \<open>k / steps \<sqdot> horizon\<close> for \<open>k = 0..steps\<close> (30 steps, 30 minutes), takes the Euclidean
  distance wherever both resolve and skips the other samples. It returns no conjunction
  when no sample has a finite distance; otherwise it returns the least sampled distance,
  the offset and the positions of the first sample that attains it, and, when both
  velocities are there, the Euclidean norm of the velocity difference at that sample.
\<close>

lemma closest_approach_on_resolving_objects:
  assumes "has_timestamp s1" and "has_timestamp s2"
  shows "((findClosestApproach E s1 s2 = Inr None \<and> no_finite_sample E s1 s2 (Suc TIME_STEPS))
          \<or> (\<exists>ca k. findClosestApproach E s1 s2 = Inr (Some ca)
                \<and> closest_sample E s1 s2 (Suc TIME_STEPS) k \<and> reports_sample E s1 s2 k ca))
       \<and> minutesAhead_of j = Num (real j / real TIME_STEPS * 30)
       \<and> calculateDistance3D \<lparr>vx = Num a1, vy = Num b1, vz = Num c1\<rparr>
                              \<lparr>vx = Num a2, vy = Num b2, vz = Num c2\<rparr>
           = Num (sqrt ((a1 - a2)\<^sup>2 + (b1 - b2)\<^sup>2 + (c1 - c2)\<^sup>2))
       \<and> calculateRelativeVelocity \<lparr>vx = Num a1, vy = Num b1, vz = Num c1\<rparr>
                                    \<lparr>vx = Num a2, vy = Num b2, vz = Num c2\<rparr>
           = Num (sqrt ((a1 - a2)\<^sup>2 + (b1 - b2)\<^sup>2 + (c1 - c2)\<^sup>2))"
  using findClosestApproach_cases [OF assms, of E]
  by (simp add: minutesAhead_of_eq TIME_STEPS_def calculateDistance3D_finite
      calculateRelativeVelocity_finite euclid_def)

lemma closest_approach_on_resolving_objects_example:
  "has_timestamp (tle_sat ''A'' 0 None) \<and> has_timestamp (tle_sat ''B'' 2 None)
   \<and> (\<exists>ca k. findClosestApproach formation_env (tle_sat ''A'' 0 None) (tle_sat ''B'' 2 None)
                 = Inr (Some ca)
        \<and> closest_sample formation_env (tle_sat ''A'' 0 None) (tle_sat ''B'' 2 None)
            (Suc TIME_STEPS) k
        \<and> reports_sample formation_env (tle_sat ''A'' 0 None) (tle_sat ''B'' 2 None) k ca)"
proof -
  have h: "has_timestamp (tle_sat ''A'' 0 None)" "has_timestamp (tle_sat ''B'' 2 None)"
    by (simp_all add: has_timestamp_def tle_sat_def)
  have "findClosestApproach formation_env (tle_sat ''A'' 0 None) (tle_sat ''B'' 2 None) \<noteq> Inr None"
    by (simp add: tle_sat_closest)
  then show ?thesis
    using h closest_approach_on_resolving_objects [OF h, of formation_env] by blast
qed

text \<open>
  When the velocities are missing at the closest sample, the relative velocity that the
  search returns is the one of an earlier, farther sample: here 8 km/s from offset 0,
  with the closest approach at offset 1.
\<close>

lemma search_loop_settled_on:
  assumes "\<And>k. k \<in> set ks \<Longrightarrow> search_step E s1 s2 k st = Inr st"
  shows "search_loop E s1 s2 ks st = Inr st"
  using assms by (induction ks) simp_all

lemma future_time:
  "new_Date (js_add (Num 1700000000000) (js_mul (minutesAhead_of k) (Num 60000)))
     = (if 8640000000000000 < 1700000000000 + real k * 60000 then NaN
        else Num (1700000000000 + real k * 60000))"
proof -
  have "1700000000000 + real k * 60000 = real_of_int (1700000000000 + int k * 60000)"
    by simp
  then have "\<lfloor>1700000000000 + real k * 60000\<rfloor> = 1700000000000 + int k * 60000"
    by (simp only: floor_of_int)
  moreover have "0 \<le> 1700000000000 + real k * 60000" by simp
  ultimately show ?thesis
    by (simp add: minutesAhead_of_eq new_Date_def)
qed

lemma fading_propagate:
  assumes "k \<le> 30"
  shows "\<exists>ts. propagateSatellitePosition fading_env (tle_sat nm rec alt) (minutesAhead_of k)
     = Inr (Some \<lparr>st_position =
                    \<lparr>vx = Num (7000 + real rec / (if k = 0 then 4 else 8)), vy = Num 0, vz = Num 0\<rparr>,
                  st_velocity =
                    (if k = 0 then Some \<lparr>vx = Num 0, vy = Num (7.5 - 4 * real rec), vz = Num 0\<rparr>
                     else None),
                  st_timestamp = ts\<rparr>)"
proof -
  have "real k * 60000 \<le> 30 * 60000" using assms by simp
  then have "\<not> 8640000000000000 < 1700000000000 + real k * 60000" by simp
  then show ?thesis
    by (simp add: propagateSatellitePosition_def propagateSatellite_def tle_sat_def
        fading_env_def future_time)
qed

lemma stale_relative_velocity:
  "findClosestApproach fading_env (tle_sat ''A'' 0 None) (tle_sat ''B'' 2 None) =
     Inr (Some \<lparr>missDistance = Num (1 / 4),
                 timeToClosestApproach = Some (Num 1),
                 relativeVelocity = Num 8,
                 positions = Some \<lparr>pos_sat1 = \<lparr>vx = Num 7000, vy = Num 0, vz = Num 0\<rparr>,
                                   pos_sat2 = \<lparr>vx = Num (7000 + 1 / 4), vy = Num 0, vz = Num 0\<rparr>\<rparr>,
                 ca_timestamp = Num 1700000060000\<rparr>)"
proof -
  let ?a = "tle_sat ''A'' 0 None" and ?b = "tle_sat ''B'' 2 None"
  define st0 where "st0 = \<lparr>minDistance = Num (1 / 2), closestTime = Some (Num 0),
      closestRelVel = Num 8,
      closestPositions = Some \<lparr>pos_sat1 = \<lparr>vx = Num 7000, vy = Num 0, vz = Num 0\<rparr>,
                               pos_sat2 = \<lparr>vx = Num (7000 + 1 / 2), vy = Num 0, vz = Num 0\<rparr>\<rparr>\<rparr>"
  define st1 where "st1 = \<lparr>minDistance = Num (1 / 4), closestTime = Some (Num 1),
      closestRelVel = Num 8,
      closestPositions = Some \<lparr>pos_sat1 = \<lparr>vx = Num 7000, vy = Num 0, vz = Num 0\<rparr>,
                               pos_sat2 = \<lparr>vx = Num (7000 + 1 / 4), vy = Num 0, vz = Num 0\<rparr>\<rparr>\<rparr>"
  have h: "sqrt ((1 / 2)\<^sup>2) = 1 / 2" "sqrt ((1 / 4)\<^sup>2) = 1 / 4" "sqrt (8\<^sup>2) = (8::real)"
    by (simp_all only: real_sqrt_abs abs_divide abs_numeral abs_one)
  have q: "sqrt (1 / 4) = 1 / 2" "sqrt (1 / 16) = 1 / 4" "sqrt 64 = (8::real)"
    using h by (simp_all add: power2_eq_square)
  have step: "search_step fading_env ?a ?b k st =
      Inr (if k = 0
           then (if js_lt (Num (1 / 2)) (minDistance st)
                 then \<lparr>minDistance = Num (1 / 2), closestTime = Some (Num 0),
                       closestRelVel = Num 8,
                       closestPositions =
                         Some \<lparr>pos_sat1 = \<lparr>vx = Num 7000, vy = Num 0, vz = Num 0\<rparr>,
                               pos_sat2 = \<lparr>vx = Num (7000 + 1 / 2), vy = Num 0, vz = Num 0\<rparr>\<rparr>\<rparr>
                 else st)
           else (if js_lt (Num (1 / 4)) (minDistance st)
                 then \<lparr>minDistance = Num (1 / 4), closestTime = Some (Num (real k)),
                       closestRelVel = closestRelVel st,
                       closestPositions =
                         Some \<lparr>pos_sat1 = \<lparr>vx = Num 7000, vy = Num 0, vz = Num 0\<rparr>,
                               pos_sat2 = \<lparr>vx = Num (7000 + 1 / 4), vy = Num 0, vz = Num 0\<rparr>\<rparr>\<rparr>
                 else st))"
    if "k \<le> 30" for k st
  proof -
    from fading_propagate [OF that, of "''A''" 0 None] fading_propagate [OF that, of "''B''" 2 None]
    obtain ta tb where
      "propagateSatellitePosition fading_env ?a (minutesAhead_of k)
         = Inr (Some \<lparr>st_position =
                    \<lparr>vx = Num (7000 + real 0 / (if k = 0 then 4 else 8)), vy = Num 0, vz = Num 0\<rparr>,
                  st_velocity =
                    (if k = 0 then Some \<lparr>vx = Num 0, vy = Num (7.5 - 4 * real 0), vz = Num 0\<rparr>
                     else None),
                  st_timestamp = ta\<rparr>)"
      "propagateSatellitePosition fading_env ?b (minutesAhead_of k)
         = Inr (Some \<lparr>st_position =
                    \<lparr>vx = Num (7000 + real 2 / (if k = 0 then 4 else 8)), vy = Num 0, vz = Num 0\<rparr>,
                  st_velocity =
                    (if k = 0 then Some \<lparr>vx = Num 0, vy = Num (7.5 - 4 * real 2), vz = Num 0\<rparr>
                     else None),
                  st_timestamp = tb\<rparr>)"
      by blast
    then show ?thesis
      by (simp add: search_step_def Let_def calculateDistance3D_finite
          calculateRelativeVelocity_finite euclid_def q minutesAhead_of_eq)
  qed
  have s0: "search_step fading_env ?a ?b 0 search_init = Inr st0"
    by (simp add: step search_init_def st0_def)
  have s1: "search_step fading_env ?a ?b (Suc 0) st0 = Inr st1"
    by (simp add: step st0_def st1_def)
  have rest: "search_loop fading_env ?a ?b [Suc (Suc 0)..<Suc TIME_STEPS] st1 = Inr st1"
  proof (rule search_loop_settled_on)
    fix k assume "k \<in> set [Suc (Suc 0)..<Suc TIME_STEPS]"
    then have "k \<le> 30" "k \<noteq> 0" by (simp_all add: TIME_STEPS_def)
    then show "search_step fading_env ?a ?b k st1 = Inr st1"
      by (simp add: step st1_def)
  qed
  have "[0..<Suc TIME_STEPS] = 0 # Suc 0 # [Suc (Suc 0)..<Suc TIME_STEPS]"
    by (simp add: upt_rec [of 0] upt_rec [of "Suc 0"] TIME_STEPS_def del: upt_Suc)
  then have "search_loop fading_env ?a ?b [0..<Suc TIME_STEPS] search_init = Inr st1"
    by (simp add: s0 s1 rest del: upt_Suc)
  moreover have "new_Date (js_add (Num (real (date_now fading_env)))
                   (js_mul (null_to_number (Some (Num 1))) (Num 60000))) = Num 1700000060000"
    using future_time [of 1]
    by (simp add: fading_env_def null_to_number_def minutesAhead_of_eq)
  ultimately show ?thesis
    by (simp add: findClosestApproach_def st1_def js_strict_eq_def del: upt_Suc)
qed

section \<open>Detection cycle\<close>

lemma make_conjunction_sel [simp]:
  "sat1 (make_conjunction E s1 s2 ca) = s1"
  "sat2 (make_conjunction E s1 s2 ca) = s2"
  "missDistance (make_conjunction E s1 s2 ca) = missDistance ca"
  "timeToClosestApproach (make_conjunction E s1 s2 ca) = timeToClosestApproach ca"
  "relativeVelocity (make_conjunction E s1 s2 ca) = relativeVelocity ca"
  "positions (make_conjunction E s1 s2 ca) = positions ca"
  "riskLevel (make_conjunction E s1 s2 ca) = getRiskLevel (missDistance ca) (relativeVelocity ca)"
  by (simp_all add: make_conjunction_def)

lemma check_pair_cases:
  assumes "check_pair E s1 s2 = Inr cs"
  shows "cs = [] \<or> (\<exists>ca. cs = [make_conjunction E s1 s2 ca]
           \<and> findClosestApproach E s1 s2 = Inr (Some ca)
           \<and> js_lt (missDistance ca) HIGH_RISK_THRESHOLD_KM \<and> \<not> altitude_gate s1 s2)"
  using assms
  by (auto simp: check_pair_def split: if_splits sum.splits option.splits)

lemma inner_loop_Inr:
  "inner_loop E ts i js acc = Inr out \<Longrightarrow>
     out = acc @ concat (map (\<lambda>j. pair_conjunctions E ts (i, j)) js)"
proof (induction js arbitrary: acc)
  case Nil
  then show ?case by simp
next
  case (Cons j js)
  from Cons.prems obtain new where
    n: "check_pair E (ts ! i) (ts ! j) = Inr new"
    and r: "inner_loop E ts i js (acc @ new) = Inr out"
    by (auto split: sum.splits)
  have "pair_conjunctions E ts (i, j) = new" by (simp add: pair_conjunctions_def n)
  then show ?case using Cons.IH [OF r] by simp
qed

lemma outer_loop_Inr:
  "outer_loop E ts is acc = Inr out \<Longrightarrow>
     out = acc @ concat (map (pair_conjunctions E ts)
                          (concat (map (\<lambda>i. map (Pair i) [Suc i..<length ts]) is)))"
proof (induction "is" arbitrary: acc)
  case Nil
  then show ?case by simp
next
  case (Cons i "is")
  from Cons.prems obtain mid where
    m: "inner_loop E ts i [Suc i..<length ts] acc = Inr mid"
    and o: "outer_loop E ts is mid = Inr out"
    by (auto split: sum.splits)
  show ?case
    using inner_loop_Inr [OF m] Cons.IH [OF o]
    by (simp add: comp_def)
qed

lemma collected_eq:
  "outer_loop E ts [0..<length ts] [] = Inr cs \<Longrightarrow>
     cs = concat (map (pair_conjunctions E ts) (visited_pairs (length ts)))"
  using outer_loop_Inr [of E ts "[0..<length ts]" "[]" cs]
  by (simp add: visited_pairs_def)

lemma visited_pairs_iff: "(i, j) \<in> set (visited_pairs n) \<longleftrightarrow> i < j \<and> j < n"
proof
  assume "(i, j) \<in> set (visited_pairs n)"
  then show "i < j \<and> j < n" by (auto simp: visited_pairs_def)
next
  assume "i < j \<and> j < n"
  then have "(i, j) \<in> set (map (Pair i) [Suc i..<n])" and "i \<in> set [0..<n]"
    by simp_all
  then have "\<exists>l\<in>set (map (\<lambda>i. map (Pair i) [Suc i..<n]) [0..<n]). (i, j) \<in> set l"
    by (intro bexI [where x = "map (Pair i) [Suc i..<n]"]) (simp_all only: set_map image_eqI)
  then show "(i, j) \<in> set (visited_pairs n)"
    unfolding visited_pairs_def set_concat by blast
qed

lemma visited_pairs_set: "set (visited_pairs n) = {(i, j). i < j \<and> j < n}"
  using visited_pairs_iff by auto

lemma distinct_pairs:
  "distinct is \<Longrightarrow> (\<And>i. distinct (f i)) \<Longrightarrow>
     distinct (concat (map (\<lambda>i. map (Pair i) (f i)) is))"
  by (induction "is") (auto simp: distinct_map inj_on_def)

lemma visited_pairs_distinct: "distinct (visited_pairs n)"
  unfolding visited_pairs_def by (rule distinct_pairs) simp_all

lemma pair_conjunctions_cases:
  "pair_conjunctions E ts (i, j) = [] \<or>
   (\<exists>ca. pair_conjunctions E ts (i, j) = [make_conjunction E (ts ! i) (ts ! j) ca]
      \<and> findClosestApproach E (ts ! i) (ts ! j) = Inr (Some ca)
      \<and> js_lt (missDistance ca) HIGH_RISK_THRESHOLD_KM
      \<and> \<not> altitude_gate (ts ! i) (ts ! j))"
proof (cases "check_pair E (ts ! i) (ts ! j)")
  case (Inl e)
  then show ?thesis by (simp add: pair_conjunctions_def)
next
  case (Inr cs)
  then show ?thesis using check_pair_cases [OF Inr] by (auto simp: pair_conjunctions_def)
qed

lemma js_insert_set [simp]: "set (js_insert cmp a bs) = insert a (set bs)"
  by (induction bs) auto

lemma js_sort_set [simp]: "set (js_sort cmp xs) = set xs"
  by (induction xs) (auto simp: js_sort_def)

lemma js_insert_mset [simp]: "mset (js_insert cmp a bs) = add_mset a (mset bs)"
  by (induction bs) auto

lemma js_sort_mset [simp]: "mset (js_sort cmp xs) = mset xs"
  by (induction xs) (auto simp: js_sort_def)

lemma js_insert_insort:
  assumes "\<exists>t. timeToClosestApproach a = Some (Num t)"
    and "\<forall>b\<in>set bs. \<exists>t. timeToClosestApproach b = Some (Num t)"
  shows "js_insert by_time a bs = insort_key time_key a bs"
  using assms
  by (induction bs) (auto simp: by_time_def time_key_def null_to_number_def js_sub_def)

lemma js_sort_sort_key:
  assumes "\<forall>c\<in>set cs. \<exists>t. timeToClosestApproach c = Some (Num t)"
  shows "js_sort by_time cs = sort_key time_key cs"
  using assms
proof (induction cs)
  case Nil
  then show ?case by (simp add: js_sort_def)
next
  case (Cons c cs)
  then have "js_sort by_time cs = sort_key time_key cs" by simp
  moreover have "\<forall>b\<in>set (sort_key time_key cs). \<exists>t. timeToClosestApproach b = Some (Num t)"
    using Cons.prems by simp
  ultimately show ?case
    using Cons.prems js_insert_insort [of c "sort_key time_key cs"]
    by (simp add: js_sort_def)
qed

lemma detect_Inr:
  assumes "detectConjunctions E sats = Inr out"
  shows "\<exists>cs. outer_loop E (filter trackable sats) [0..<length (filter trackable sats)] [] = Inr cs
           \<and> out = take 5 (js_sort by_time cs)"
  using assms by (auto simp: detectConjunctions_def Let_def split: sum.splits)

lemma collected_member:
  assumes "outer_loop E ts [0..<length ts] [] = Inr cs" and "c \<in> set cs"
  shows "\<exists>i j ca. i < j \<and> j < length ts \<and> c = make_conjunction E (ts ! i) (ts ! j) ca
           \<and> findClosestApproach E (ts ! i) (ts ! j) = Inr (Some ca)
           \<and> js_lt (missDistance ca) HIGH_RISK_THRESHOLD_KM
           \<and> \<not> altitude_gate (ts ! i) (ts ! j)"
proof -
  from assms obtain p where p: "p \<in> set (visited_pairs (length ts))"
    and c: "c \<in> set (pair_conjunctions E ts p)"
    using collected_eq [OF assms(1)] by auto
  obtain i j where ij: "p = (i, j)" by (cases p)
  then have lt: "i < j" "j < length ts" using p by (auto simp: visited_pairs_set)
  from pair_conjunctions_cases [of E ts i j] c ij obtain ca where
    "c = make_conjunction E (ts ! i) (ts ! j) ca"
    "findClosestApproach E (ts ! i) (ts ! j) = Inr (Some ca)"
    "js_lt (missDistance ca) HIGH_RISK_THRESHOLD_KM"
    "\<not> altitude_gate (ts ! i) (ts ! j)"
    by auto
  with lt show ?thesis by blast
qed

lemma detect_member:
  assumes "detectConjunctions E sats = Inr out" and "c \<in> set out"
  shows "\<exists>i j ca. i < j \<and> j < length (filter trackable sats)
           \<and> c = make_conjunction E (filter trackable sats ! i) (filter trackable sats ! j) ca
           \<and> findClosestApproach E (filter trackable sats ! i) (filter trackable sats ! j)
               = Inr (Some ca)
           \<and> js_lt (missDistance ca) HIGH_RISK_THRESHOLD_KM
           \<and> \<not> altitude_gate (filter trackable sats ! i) (filter trackable sats ! j)"
proof -
  from detect_Inr [OF assms(1)] obtain cs where
    cs: "outer_loop E (filter trackable sats) [0..<length (filter trackable sats)] [] = Inr cs"
    and out: "out = take 5 (js_sort by_time cs)" by blast
  have "c \<in> set cs" using assms(2) out by (auto dest: in_set_takeD)
  then show ?thesis using collected_member [OF cs] by blast
qed

lemma collected_times:
  assumes "outer_loop E ts [0..<length ts] [] = Inr cs" and "c \<in> set cs"
  shows "\<exists>k\<le>TIME_STEPS. timeToClosestApproach c = Some (Num (real k))"
proof -
  from collected_member [OF assms] obtain i j ca where
    c: "c = make_conjunction E (ts ! i) (ts ! j) ca"
    and f: "findClosestApproach E (ts ! i) (ts ! j) = Inr (Some ca)" by blast
  from findClosestApproach_bounds [OF f] show ?thesis using c by auto
qed

lemma detect_sats_trackable:
  assumes "detectConjunctions E sats = Inr out" and "c \<in> set out"
  shows "trackable (sat1 c) \<and> trackable (sat2 c)"
proof -
  define ts where "ts = filter trackable sats"
  from detect_member [OF assms] obtain i j where
    ij: "i < j" "j < length ts" and s: "sat1 c = ts ! i" "sat2 c = ts ! j"
    unfolding ts_def by auto
  have "i < length ts" using ij by simp
  then have "ts ! i \<in> set ts" "ts ! j \<in> set ts"
    using ij by simp_all
  then show ?thesis using s by (simp add: ts_def)
qed

text \<open>A cycle over objects that all resolve without error returns a list.\<close>

lemma check_pair_total:
  assumes "has_timestamp s1" and "has_timestamp s2"
  shows "\<exists>cs. check_pair E s1 s2 = Inr cs"
  using findClosestApproach_cases [OF assms, of E]
  by (auto simp: check_pair_def)

lemma inner_loop_total:
  assumes "has_timestamp (ts ! i)" and "\<forall>j\<in>set js. has_timestamp (ts ! j)"
  shows "\<exists>out. inner_loop E ts i js acc = Inr out"
  using assms(2)
proof (induction js arbitrary: acc)
  case Nil
  then show ?case by simp
next
  case (Cons j js)
  then obtain new where "check_pair E (ts ! i) (ts ! j) = Inr new"
    using check_pair_total [OF assms(1), of "ts ! j" E] by auto
  then show ?case using Cons by simp
qed

lemma outer_loop_total:
  assumes "\<forall>s\<in>set ts. has_timestamp s" and "\<forall>i\<in>set is. i < length ts"
  shows "\<exists>out. outer_loop E ts is acc = Inr out"
  using assms(2)
proof (induction "is" arbitrary: acc)
  case Nil
  then show ?case by simp
next
  case (Cons i "is")
  then have "i < length ts" by simp
  then have "has_timestamp (ts ! i)" "\<forall>j\<in>set [Suc i..<length ts]. has_timestamp (ts ! j)"
    using assms(1) by simp_all
  then obtain mid where "inner_loop E ts i [Suc i..<length ts] acc = Inr mid"
    using inner_loop_total by blast
  then show ?case using Cons by simp
qed

lemma detect_total:
  assumes "\<forall>s\<in>set sats. trackable s \<longrightarrow> has_timestamp s"
  shows "\<exists>out. detectConjunctions E sats = Inr out"
proof -
  have "\<forall>s\<in>set (filter trackable sats). has_timestamp s" using assms by simp
  moreover have "\<forall>i\<in>set [0..<length (filter trackable sats)]. i < length (filter trackable sats)"
    by simp
  ultimately obtain cs where
    "outer_loop E (filter trackable sats) [0..<length (filter trackable sats)] [] = Inr cs"
    using outer_loop_total [of "filter trackable sats" "[0..<length (filter trackable sats)]" E "[]"]
    by blast
  then show ?thesis by (simp add: detectConjunctions_def)
qed

text \<open>
  The positions of a returned conjunction are those of its two objects at the sample
  of its time to closest approach.
\<close>

lemma detected_collision_point:
  assumes "detectConjunctions E sats = Inr out" and "c \<in> set out"
  shows "\<exists>k p1 ps. k \<le> TIME_STEPS \<and> timeToClosestApproach c = Some (minutesAhead_of k)
           \<and> resolve E (sat1 c) (minutesAhead_of k) = Some p1
           \<and> positions c = Some ps \<and> pos_sat1 ps = st_position p1"
proof -
  from detect_member [OF assms] obtain i j ca where
    c: "c = make_conjunction E (filter trackable sats ! i) (filter trackable sats ! j) ca"
    and f: "findClosestApproach E (filter trackable sats ! i) (filter trackable sats ! j)
              = Inr (Some ca)"
    by blast
  from findClosestApproach_Some [OF f] obtain k where
    k: "closest_sample E (filter trackable sats ! i) (filter trackable sats ! j) (Suc TIME_STEPS) k"
    and r: "reports_sample E (filter trackable sats ! i) (filter trackable sats ! j) k ca"
    by blast
  have "k \<le> TIME_STEPS" using k by (simp add: closest_sample_def)
  then show ?thesis using r c by (auto simp: reports_sample_def)
qed

lemma detected_has_positions:
  assumes "detectConjunctions E sats = Inr out" and "c \<in> set out"
  shows "positions c \<noteq> None"
  using detected_collision_point [OF assms] by auto

text \<open>The detection cycle on the example snapshots.\<close>

lemma tle_sat_check_pair:
  "check_pair formation_env (tle_sat n1 r1 a1) (tle_sat n2 r2 a2) =
     (if altitude_gate (tle_sat n1 r1 a1) (tle_sat n2 r2 a2) then Inr []
      else if \<bar>real r1 - real r2\<bar> / 4 < 1
      then Inr [make_conjunction formation_env (tle_sat n1 r1 a1) (tle_sat n2 r2 a2)
                  (formation_approach r1 r2)]
      else Inr [])"
  by (simp add: check_pair_def tle_sat_closest formation_approach_def HIGH_RISK_THRESHOLD_KM_def)

lemma tle_sat_trackable [simp]: "trackable (tle_sat nm r a)"
  by (simp add: trackable_def tle_sat_def)

lemma tle_sat_gate_num [simp]:
  "altitude_gate (tle_sat n1 r1 (Some (Num a))) (tle_sat n2 r2 (Some (Num b))) \<longleftrightarrow> 100 < \<bar>a - b\<bar>"
  by (simp add: altitude_gate_def tle_sat_def undefined_to_number_def js_sub_def)

lemma tle_sat_gate_none [simp]:
  "\<not> altitude_gate (tle_sat n1 r1 None) (tle_sat n2 r2 a2)"
  by (simp add: altitude_gate_def tle_sat_def undefined_to_number_def js_sub_def)

lemma tie_snapshot_result:
  "detectConjunctions formation_env tie_snapshot =
     Inr [make_conjunction formation_env (tle_sat ''A'' 0 (Some (Num 629)))
            (tle_sat ''B'' 2 (Some (Num 629))) (formation_approach 0 2),
          make_conjunction formation_env (tle_sat ''A'' 0 (Some (Num 629)))
            (tle_sat ''C'' 1 (Some (Num 629))) (formation_approach 0 1),
          make_conjunction formation_env (tle_sat ''B'' 2 (Some (Num 629)))
            (tle_sat ''C'' 1 (Some (Num 629))) (formation_approach 2 1)]"
proof -
  have u: "[0..<3] = [0, 1, 2]" "[Suc 0..<3] = [1, 2]" "[Suc 1..<3] = [2]" "[Suc 2..<3] = []"
    by (simp_all add: upt_rec)
  have t: "time_key (make_conjunction formation_env s1 s2 (formation_approach r1 r2)) = 0"
    for s1 s2 :: "nat satellite" and r1 r2
    by (simp add: time_key_def make_conjunction_def formation_approach_def)
  show ?thesis
    by (simp add: detectConjunctions_def tie_snapshot_def u tle_sat_check_pair
        js_sort_def by_time_def make_conjunction_def formation_approach_def null_to_number_def
        js_sub_def)
qed

lemma shell_snapshot_result:
  "detectConjunctions formation_env shell_snapshot =
     Inr [make_conjunction formation_env (tle_sat ''A'' 0 (Some (Num 550)))
            (tle_sat ''C'' 1 (Some (Num 560))) (formation_approach 0 1)]"
proof -
  have u: "[0..<3] = [0, 1, 2]" "[Suc 0..<3] = [1, 2]" "[Suc 1..<3] = [2]" "[Suc 2..<3] = []"
    by (simp_all add: upt_rec)
  show ?thesis
    by (simp add: detectConjunctions_def shell_snapshot_def u tle_sat_check_pair js_sort_def)
qed

lemma far_pair_closest:
  "findClosestApproach formation_env (tle_sat ''A'' 0 None) (tle_sat ''B'' 8 None)
     = Inr (Some (formation_approach 0 8))"
  by (simp add: tle_sat_closest formation_approach_def)

lemma pair_snapshot_result:
  "detectConjunctions formation_env [tle_sat n1 r1 None, tle_sat n2 r1 a2] =
     Inr [make_conjunction formation_env (tle_sat n1 r1 None) (tle_sat n2 r1 a2)
            (formation_approach r1 r1)]"
proof -
  have u: "[0..<2] = [0, 1]" "[Suc 0..<2] = [1]" "[Suc 1..<2] = []"
    by (simp_all add: upt_rec)
  show ?thesis
    by (simp add: detectConjunctions_def u tle_sat_check_pair js_sort_def)
qed

lemma detect_missing_timestamp:
  assumes "satrec s1 \<noteq> None" "timestamp s1 = None" "satrec s2 \<noteq> None"
    "altitude s1 = None"
  shows "detectConjunctions E [s1, s2] = Inl TypeError"
proof -
  have u: "[0..<2] = [0, 1]" "[Suc 0..<2] = [1]"
    by (simp_all add: upt_rec)
  have "\<not> has_timestamp s1" using assms by (simp add: has_timestamp_def)
  then have "findClosestApproach E s1 s2 = Inl TypeError"
    by (simp add: findClosestApproach_error)
  moreover have "\<not> altitude_gate s1 s2"
    using assms by (simp add: altitude_gate_def undefined_to_number_def js_sub_def)
  ultimately have "check_pair E s1 s2 = Inl TypeError"
    by (simp add: check_pair_def)
  then show ?thesis
    using assms by (simp add: detectConjunctions_def trackable_def u)
qed

lemma detect_unresolvable_pair:
  assumes "trackable s1" and "trackable s2" and "\<not> altitude_gate s1 s2"
    and "\<not> (has_timestamp s1 \<and> has_timestamp s2)"
  shows "detectConjunctions E [s1, s2] = Inl TypeError"
proof -
  have u: "[0..<2] = [0, 1]" "[Suc 0..<2] = [1]"
    by (simp_all add: upt_rec)
  have "findClosestApproach E s1 s2 = Inl TypeError"
    using assms(4) by (rule findClosestApproach_error)
  then have "check_pair E s1 s2 = Inl TypeError"
    using assms(3) by (simp add: check_pair_def)
  then show ?thesis
    using assms(1,2) by (simp add: detectConjunctions_def u)
qed

text \<open>
  Claim C1 lets every surviving pair have its closest approach searched, a sample at
  which an object does not resolve being skipped. An object with an SGP4 record and no
  timestamp survives the filter and the altitude test, but its first propagation
  throws a TypeError, which ends the search and the whole scan: here for an object at
  altitude 550 km paired with one at 551 km, and for two objects that have only a name
  and a record.
\<close>

theorem closest_approach_throws:
  "filter trackable
       [(tle_sat ''A'' 0 (Some (Num 550)))\<lparr>timestamp := None\<rparr>, tle_sat ''B'' 0 (Some (Num 551))]
     = [(tle_sat ''A'' 0 (Some (Num 550)))\<lparr>timestamp := None\<rparr>, tle_sat ''B'' 0 (Some (Num 551))]
   \<and> \<not> altitude_gate ((tle_sat ''A'' 0 (Some (Num 550)))\<lparr>timestamp := None\<rparr>)
                       (tle_sat ''B'' 0 (Some (Num 551)))
   \<and> findClosestApproach formation_env ((tle_sat ''A'' 0 (Some (Num 550)))\<lparr>timestamp := None\<rparr>)
         (tle_sat ''B'' 0 (Some (Num 551))) = Inl TypeError
   \<and> detectConjunctions formation_env
         [(tle_sat ''A'' 0 (Some (Num 550)))\<lparr>timestamp := None\<rparr>, tle_sat ''B'' 0 (Some (Num 551))]
       = Inl TypeError
   \<and> filter trackable [n2yo_sat ''A'' 0, n2yo_sat ''B'' 1] = [n2yo_sat ''A'' 0, n2yo_sat ''B'' 1]
   \<and> \<not> altitude_gate (n2yo_sat ''A'' 0) (n2yo_sat ''B'' 1)
   \<and> findClosestApproach formation_env (n2yo_sat ''A'' 0) (n2yo_sat ''B'' 1) = Inl TypeError
   \<and> detectConjunctions formation_env [n2yo_sat ''A'' 0, n2yo_sat ''B'' 1] = Inl TypeError"
proof -
  let ?a = "(tle_sat ''A'' 0 (Some (Num 550)))\<lparr>timestamp := None\<rparr>"
  let ?b = "tle_sat ''B'' 0 (Some (Num 551))"
  have t: "trackable ?a" "trackable ?b" "trackable (n2yo_sat ''A'' 0)" "trackable (n2yo_sat ''B'' 1)"
    by (simp_all add: trackable_def tle_sat_def n2yo_sat_def)
  then have k: "filter trackable [?a, ?b] = [?a, ?b]"
    "filter trackable [n2yo_sat ''A'' 0, n2yo_sat ''B'' 1] = [n2yo_sat ''A'' 0, n2yo_sat ''B'' 1]"
    by simp_all
  have g: "\<not> altitude_gate ?a ?b" "\<not> altitude_gate (n2yo_sat ''A'' 0) (n2yo_sat ''B'' 1)"
    by (simp_all add: altitude_gate_def tle_sat_def n2yo_sat_def undefined_to_number_def js_sub_def)
  have n: "\<not> (has_timestamp ?a \<and> has_timestamp ?b)"
    "\<not> (has_timestamp (n2yo_sat ''A'' 0) \<and> has_timestamp (n2yo_sat ''B'' 1))"
    by (simp_all add: has_timestamp_def tle_sat_def n2yo_sat_def)
  have f: "findClosestApproach formation_env ?a ?b = Inl TypeError"
    "findClosestApproach formation_env (n2yo_sat ''A'' 0) (n2yo_sat ''B'' 1) = Inl TypeError"
    by (rule findClosestApproach_error [OF n(1)]) (rule findClosestApproach_error [OF n(2)])
  have d: "detectConjunctions formation_env [?a, ?b] = Inl TypeError"
    "detectConjunctions formation_env [n2yo_sat ''A'' 0, n2yo_sat ''B'' 1] = Inl TypeError"
    by (rule detect_unresolvable_pair [OF t(1,2) g(1) n(1)])
       (rule detect_unresolvable_pair [OF t(3,4) g(2) n(2)])
  show ?thesis
    by (intro conjI k g f d)
qed

text \<open>
  Claim C5. Every conjunction returned by a detection cycle has a miss distance below
  1.0 km and a time to closest approach between 0 and 30 minutes; a pair whose least
  sampled distance is not below the threshold adds nothing to the list.
\<close>

theorem conjunction_bounds:
  assumes "detectConjunctions E sats = Inr out" and "c \<in> set out"
  shows "(\<exists>d t. missDistance c = Num d \<and> 0 \<le> d \<and> d < 1
            \<and> timeToClosestApproach c = Some (Num t) \<and> 0 \<le> t \<and> t \<le> 30)
       \<and> (findClosestApproach E s1 s2 = Inr (Some ca)
            \<and> \<not> js_lt (missDistance ca) HIGH_RISK_THRESHOLD_KM
          \<longrightarrow> check_pair E s1 s2 = Inr [])"
proof -
  from detect_member [OF assms] obtain i j ca' where
    c: "c = make_conjunction E (filter trackable sats ! i) (filter trackable sats ! j) ca'"
    and f: "findClosestApproach E (filter trackable sats ! i) (filter trackable sats ! j)
              = Inr (Some ca')"
    and lt: "js_lt (missDistance ca') HIGH_RISK_THRESHOLD_KM"
    by blast
  from findClosestApproach_bounds [OF f] obtain d k where
    d: "missDistance ca' = Num d" "0 \<le> d" and k: "k \<le> TIME_STEPS"
    "timeToClosestApproach ca' = Some (Num (real k))" by blast
  have "d < 1" using lt d by (simp add: HIGH_RISK_THRESHOLD_KM_def)
  moreover have "0 \<le> real k" "real k \<le> 30" using k by (simp_all add: TIME_STEPS_def)
  ultimately have "\<exists>d t. missDistance c = Num d \<and> 0 \<le> d \<and> d < 1
            \<and> timeToClosestApproach c = Some (Num t) \<and> 0 \<le> t \<and> t \<le> 30"
    using c d k by auto
  moreover have "check_pair E s1 s2 = Inr []"
    if "findClosestApproach E s1 s2 = Inr (Some ca)"
       "\<not> js_lt (missDistance ca) HIGH_RISK_THRESHOLD_KM"
    using that by (simp add: check_pair_def)
  ultimately show ?thesis by blast
qed

theorem conjunction_bounds_witness:
  "detectConjunctions formation_env tie_snapshot =
     Inr [make_conjunction formation_env (tle_sat ''A'' 0 (Some (Num 629)))
            (tle_sat ''B'' 2 (Some (Num 629))) (formation_approach 0 2),
          make_conjunction formation_env (tle_sat ''A'' 0 (Some (Num 629)))
            (tle_sat ''C'' 1 (Some (Num 629))) (formation_approach 0 1),
          make_conjunction formation_env (tle_sat ''B'' 2 (Some (Num 629)))
            (tle_sat ''C'' 1 (Some (Num 629))) (formation_approach 2 1)]
   \<and> (\<exists>d t. missDistance (make_conjunction formation_env (tle_sat ''A'' 0 (Some (Num 629)))
                 (tle_sat ''B'' 2 (Some (Num 629))) (formation_approach 0 2)) = Num d
          \<and> 0 \<le> d \<and> d < 1
          \<and> timeToClosestApproach (make_conjunction formation_env (tle_sat ''A'' 0 (Some (Num 629)))
                 (tle_sat ''B'' 2 (Some (Num 629))) (formation_approach 0 2)) = Some (Num t)
          \<and> 0 \<le> t \<and> t \<le> 30)
   \<and> findClosestApproach formation_env (tle_sat ''A'' 0 None) (tle_sat ''B'' 8 None)
       = Inr (Some (formation_approach 0 8))
   \<and> \<not> js_lt (missDistance (formation_approach 0 8)) HIGH_RISK_THRESHOLD_KM
   \<and> check_pair formation_env (tle_sat ''A'' 0 None) (tle_sat ''B'' 8 None) = Inr []"
proof -
  have far: "\<not> js_lt (missDistance (formation_approach 0 8)) HIGH_RISK_THRESHOLD_KM"
    by (simp add: formation_approach_def HIGH_RISK_THRESHOLD_KM_def)
  have m: "make_conjunction formation_env (tle_sat ''A'' 0 (Some (Num 629)))
            (tle_sat ''B'' 2 (Some (Num 629))) (formation_approach 0 2)
          \<in> set [make_conjunction formation_env (tle_sat ''A'' 0 (Some (Num 629)))
            (tle_sat ''B'' 2 (Some (Num 629))) (formation_approach 0 2),
          make_conjunction formation_env (tle_sat ''A'' 0 (Some (Num 629)))
            (tle_sat ''C'' 1 (Some (Num 629))) (formation_approach 0 1),
          make_conjunction formation_env (tle_sat ''B'' 2 (Some (Num 629)))
            (tle_sat ''C'' 1 (Some (Num 629))) (formation_approach 2 1)]"
    by simp
  from conjunction_bounds [OF tie_snapshot_result m,
      of "tle_sat ''A'' 0 None" "tle_sat ''B'' 8 None" "formation_approach 0 8"]
  show ?thesis using tie_snapshot_result far_pair_closest far by blast
qed

text \<open>
  Claim C4. A pair of objects whose altitudes differ by more than 100 km is rejected by
  the altitude test, and no conjunction of a detection cycle pairs the two, whatever
  their trajectories.
\<close>

theorem altitude_gate_rejects:
  assumes "altitude s1 = Some (Num a)" and "altitude s2 = Some (Num b)" and "100 < \<bar>a - b\<bar>"
  shows "check_pair E s1 s2 = Inr [] \<and> check_pair E s2 s1 = Inr []
       \<and> (\<forall>out. detectConjunctions E sats = Inr out
                \<longrightarrow> (\<forall>c\<in>set out. \<not> (sat1 c = s1 \<and> sat2 c = s2)
                                    \<and> \<not> (sat1 c = s2 \<and> sat2 c = s1)))"
proof -
  have gate: "altitude_gate s1 s2" "altitude_gate s2 s1"
    using assms by (simp_all add: altitude_gate_def undefined_to_number_def js_sub_def)
  then have "check_pair E s1 s2 = Inr []" "check_pair E s2 s1 = Inr []"
    by (simp_all add: check_pair_def)
  moreover have "\<not> (sat1 c = s1 \<and> sat2 c = s2) \<and> \<not> (sat1 c = s2 \<and> sat2 c = s1)"
    if "detectConjunctions E sats = Inr out" "c \<in> set out" for out c
    using detect_member [OF that] gate by auto
  ultimately show ?thesis by blast
qed

theorem altitude_gate_rejects_witness:
  "altitude (tle_sat ''A'' 0 (Some (Num 550))) = Some (Num 550)
   \<and> altitude (tle_sat ''B'' 0 (Some (Num 700))) = Some (Num 700)
   \<and> (100::real) < \<bar>550 - 700\<bar>
   \<and> check_pair formation_env (tle_sat ''A'' 0 (Some (Num 550))) (tle_sat ''B'' 0 (Some (Num 700)))
       = Inr []
   \<and> detectConjunctions formation_env shell_snapshot =
       Inr [make_conjunction formation_env (tle_sat ''A'' 0 (Some (Num 550)))
              (tle_sat ''C'' 1 (Some (Num 560))) (formation_approach 0 1)]
   \<and> \<not> (sat1 (make_conjunction formation_env (tle_sat ''A'' 0 (Some (Num 550)))
              (tle_sat ''C'' 1 (Some (Num 560))) (formation_approach 0 1))
            = tle_sat ''A'' 0 (Some (Num 550))
          \<and> sat2 (make_conjunction formation_env (tle_sat ''A'' 0 (Some (Num 550)))
              (tle_sat ''C'' 1 (Some (Num 560))) (formation_approach 0 1))
            = tle_sat ''B'' 0 (Some (Num 700)))"
proof -
  have h: "altitude (tle_sat ''A'' 0 (Some (Num 550))) = Some (Num 550)"
    "altitude (tle_sat ''B'' 0 (Some (Num 700))) = Some (Num 700)"
    "(100::real) < \<bar>550 - 700\<bar>"
    by (simp_all add: tle_sat_def)
  from altitude_gate_rejects [OF h, of formation_env shell_snapshot] shell_snapshot_result
  have "check_pair formation_env (tle_sat ''A'' 0 (Some (Num 550)))
          (tle_sat ''B'' 0 (Some (Num 700))) = Inr []"
    and "\<not> (sat1 (make_conjunction formation_env (tle_sat ''A'' 0 (Some (Num 550)))
              (tle_sat ''C'' 1 (Some (Num 560))) (formation_approach 0 1))
            = tle_sat ''A'' 0 (Some (Num 550))
          \<and> sat2 (make_conjunction formation_env (tle_sat ''A'' 0 (Some (Num 550)))
              (tle_sat ''C'' 1 (Some (Num 560))) (formation_approach 0 1))
            = tle_sat ''B'' 0 (Some (Num 700)))"
    by simp_all
  then show ?thesis using h shell_snapshot_result by blast
qed

text \<open>
  Claim C3, as stated, breaks ties in the time to closest approach by the smaller miss
  distance. On three objects flying in formation all three conjunctions are closest at
  offset 0, and the cycle returns the pair at 0.5 km before the pairs at 0.25 km.
\<close>

theorem tie_break_counterexample:
  "detectConjunctions formation_env tie_snapshot =
     Inr [make_conjunction formation_env (tle_sat ''A'' 0 (Some (Num 629)))
            (tle_sat ''B'' 2 (Some (Num 629))) (formation_approach 0 2),
          make_conjunction formation_env (tle_sat ''A'' 0 (Some (Num 629)))
            (tle_sat ''C'' 1 (Some (Num 629))) (formation_approach 0 1),
          make_conjunction formation_env (tle_sat ''B'' 2 (Some (Num 629)))
            (tle_sat ''C'' 1 (Some (Num 629))) (formation_approach 2 1)]
   \<and> timeToClosestApproach (formation_approach 0 2) = Some (Num 0)
   \<and> timeToClosestApproach (formation_approach 0 1) = Some (Num 0)
   \<and> missDistance (formation_approach 0 2) = Num (1 / 2)
   \<and> missDistance (formation_approach 0 1) = Num (1 / 4)
   \<and> \<not> tie_broken_order
         [make_conjunction formation_env (tle_sat ''A'' 0 (Some (Num 629)))
            (tle_sat ''B'' 2 (Some (Num 629))) (formation_approach 0 2),
          make_conjunction formation_env (tle_sat ''A'' 0 (Some (Num 629)))
            (tle_sat ''C'' 1 (Some (Num 629))) (formation_approach 0 1),
          make_conjunction formation_env (tle_sat ''B'' 2 (Some (Num 629)))
            (tle_sat ''C'' 1 (Some (Num 629))) (formation_approach 2 1)]"
  by (simp add: tie_snapshot_result tie_broken_order_def time_key_def miss_key_def
      formation_approach_def)

text \<open>
  Claim C3, amended. The returned list is the list of qualifying conjunctions, sorted
  ascending by time to closest approach by a stable sort, so that conjunctions with
  equal times stay in the order in which the pairwise loop found them, and cut to at
  most 5 elements.
\<close>

theorem ranked_output:
  assumes "detectConjunctions E sats = Inr out"
  shows "\<exists>cs. outer_loop E (filter trackable sats) [0..<length (filter trackable sats)] [] = Inr cs
           \<and> cs = concat (map (pair_conjunctions E (filter trackable sats))
                              (visited_pairs (length (filter trackable sats))))
           \<and> (\<forall>c\<in>set cs. \<exists>k\<le>TIME_STEPS. timeToClosestApproach c = Some (Num (real k)))
           \<and> out = take 5 (sort_key time_key cs)
           \<and> sorted (map time_key out) \<and> length out \<le> 5"
proof -
  from detect_Inr [OF assms] obtain cs where
    cs: "outer_loop E (filter trackable sats) [0..<length (filter trackable sats)] [] = Inr cs"
    and out: "out = take 5 (js_sort by_time cs)" by blast
  have times: "\<forall>c\<in>set cs. \<exists>k\<le>TIME_STEPS. timeToClosestApproach c = Some (Num (real k))"
    using collected_times [OF cs] by blast
  then have "js_sort by_time cs = sort_key time_key cs"
    by (intro js_sort_sort_key) blast
  then have o: "out = take 5 (sort_key time_key cs)" using out by simp
  have "sorted (take 5 (map time_key (sort_key time_key cs)))"
    by (intro sorted_wrt_take) simp
  then have "sorted (map time_key out)" by (simp add: o take_map)
  moreover have "length out \<le> 5" by (simp add: o)
  ultimately show ?thesis using cs collected_eq [OF cs] times o by blast
qed

theorem ranked_output_witness:
  "detectConjunctions formation_env tie_snapshot =
     Inr [make_conjunction formation_env (tle_sat ''A'' 0 (Some (Num 629)))
            (tle_sat ''B'' 2 (Some (Num 629))) (formation_approach 0 2),
          make_conjunction formation_env (tle_sat ''A'' 0 (Some (Num 629)))
            (tle_sat ''C'' 1 (Some (Num 629))) (formation_approach 0 1),
          make_conjunction formation_env (tle_sat ''B'' 2 (Some (Num 629)))
            (tle_sat ''C'' 1 (Some (Num 629))) (formation_approach 2 1)]
   \<and> sorted (map time_key
         [make_conjunction formation_env (tle_sat ''A'' 0 (Some (Num 629)))
            (tle_sat ''B'' 2 (Some (Num 629))) (formation_approach 0 2),
          make_conjunction formation_env (tle_sat ''A'' 0 (Some (Num 629)))
            (tle_sat ''C'' 1 (Some (Num 629))) (formation_approach 0 1),
          make_conjunction formation_env (tle_sat ''B'' 2 (Some (Num 629)))
            (tle_sat ''C'' 1 (Some (Num 629))) (formation_approach 2 1)])"
  using ranked_output [OF tie_snapshot_result] tie_snapshot_result by blast

text \<open>
  Claim C9, as stated, excludes every object without altitude. Two objects that have an
  SGP4 record and no altitude pass the filter and the altitude test and yield a CRITICAL
  conjunction; when one of them also lacks its timestamp, the scan ends in a TypeError.
\<close>

theorem missing_altitude_counterexample:
  "altitude (tle_sat ''A'' 0 None) = None
   \<and> altitude (tle_sat ''B'' 0 None) = None
   \<and> detectConjunctions formation_env [tle_sat ''A'' 0 None, tle_sat ''B'' 0 None] =
       Inr [make_conjunction formation_env (tle_sat ''A'' 0 None) (tle_sat ''B'' 0 None)
              (formation_approach 0 0)]
   \<and> riskLevel (make_conjunction formation_env (tle_sat ''A'' 0 None) (tle_sat ''B'' 0 None)
                  (formation_approach 0 0)) = CRITICAL
   \<and> detectConjunctions formation_env
        [(tle_sat ''A'' 0 None)\<lparr>timestamp := None\<rparr>, tle_sat ''B'' 0 None] = Inl TypeError"
proof -
  have "detectConjunctions formation_env
          [(tle_sat ''A'' 0 None)\<lparr>timestamp := None\<rparr>, tle_sat ''B'' 0 None] = Inl TypeError"
    by (rule detect_missing_timestamp) (simp_all add: tle_sat_def)
  moreover have "riskLevel (make_conjunction formation_env (tle_sat ''A'' 0 None)
                   (tle_sat ''B'' 0 None) (formation_approach 0 0)) = CRITICAL"
    by (simp add: formation_approach_def getRiskLevel_def)
  moreover have "altitude (tle_sat ''A'' 0 None) = None" "altitude (tle_sat ''B'' 0 None) = None"
    by (simp_all add: tle_sat_def)
  ultimately show ?thesis by (simp only: pair_snapshot_result simp_thms)
qed

text \<open>
  Claim C9, amended. A tracked object with no SGP4 record and no altitude (or with
  altitude zero or NaN) is excluded from the detection cycle: the scan returns, or
  fails, exactly as it does without the object, and no returned conjunction contains it.
\<close>

theorem untrackable_excluded:
  assumes "satrec s = None" and "\<not> truthy_field (altitude s)"
  shows "detectConjunctions E (xs @ s # ys) = detectConjunctions E (xs @ ys)
       \<and> (\<forall>out. detectConjunctions E (xs @ s # ys) = Inr out
               \<longrightarrow> (\<forall>c\<in>set out. sat1 c \<noteq> s \<and> sat2 c \<noteq> s))"
proof -
  have nt: "\<not> trackable s" using assms by (simp add: trackable_def)
  then have eq: "detectConjunctions E (xs @ s # ys) = detectConjunctions E (xs @ ys)"
    by (simp add: detectConjunctions_def)
  have "sat1 c \<noteq> s \<and> sat2 c \<noteq> s"
    if d: "detectConjunctions E (xs @ s # ys) = Inr out" and c: "c \<in> set out" for out c
    using detect_sats_trackable [OF d c] nt by auto
  then show ?thesis using eq by blast
qed

theorem untrackable_excluded_witness:
  "satrec bare_sat = None \<and> \<not> truthy_field (altitude bare_sat)
   \<and> detectConjunctions formation_env ([tle_sat ''A'' 0 None] @ bare_sat # [tle_sat ''B'' 0 None])
       = detectConjunctions formation_env ([tle_sat ''A'' 0 None] @ [tle_sat ''B'' 0 None])
   \<and> detectConjunctions formation_env ([tle_sat ''A'' 0 None] @ bare_sat # [tle_sat ''B'' 0 None])
       = Inr [make_conjunction formation_env (tle_sat ''A'' 0 None) (tle_sat ''B'' 0 None)
                (formation_approach 0 0)]
   \<and> sat1 (make_conjunction formation_env (tle_sat ''A'' 0 None) (tle_sat ''B'' 0 None)
             (formation_approach 0 0)) \<noteq> bare_sat
   \<and> sat2 (make_conjunction formation_env (tle_sat ''A'' 0 None) (tle_sat ''B'' 0 None)
             (formation_approach 0 0)) \<noteq> bare_sat"
proof -
  have h: "satrec bare_sat = None" "\<not> truthy_field (altitude bare_sat)"
    by (simp_all add: bare_sat_def truthy_field_def)
  have "tle_sat ''A'' 0 None \<noteq> bare_sat" "tle_sat ''B'' 0 None \<noteq> bare_sat"
    by (simp_all add: tle_sat_def bare_sat_def)
  with untrackable_excluded [OF h, of formation_env "[tle_sat ''A'' 0 None]" "[tle_sat ''B'' 0 None]"]
  show ?thesis using h by (simp add: pair_snapshot_result)
qed

lemma mset_take_subset: "mset (take n xs) \<subseteq># mset xs"
proof -
  have "mset xs = mset (take n xs) + mset (drop n xs)"
    by (metis append_take_drop_id mset_append)
  then show ?thesis by simp
qed

lemma distinct_of_mset_subset:
  assumes "mset xs \<subseteq># mset ys" and "distinct ys"
  shows "distinct xs"
proof -
  have le: "count (mset xs) a \<le> 1" for a
  proof -
    have "count (mset xs) a \<le> count (mset ys) a"
      using assms(1) by (rule mset_subset_eq_count)
    also have "\<dots> \<le> 1"
      using assms(2) by (simp add: distinct_count_atmost_1)
    finally show ?thesis .
  qed
  have "count (mset xs) a = (if a \<in> set xs then 1 else 0)" for a
  proof (cases "a \<in> set xs")
    case True
    then have "0 < count (mset xs) a" by simp
    then have "count (mset xs) a = 1" using le [of a] by linarith
    then show ?thesis using True by (simp only: if_True)
  next
    case False
    then show ?thesis by (simp add: count_eq_zero_iff)
  qed
  then show ?thesis by (simp only: distinct_count_atmost_1) simp
qed

lemma unordered_mset:
  assumes "mset (map (\<lambda>c. (f c, g c)) out) \<subseteq># mset (map (\<lambda>(i, j). (ts ! i, ts ! j)) P)"
  shows "mset (map (\<lambda>c. {f c, g c}) out) \<subseteq># mset (map (\<lambda>(i, j). {ts ! i, ts ! j}) P)"
proof -
  have "image_mset (\<lambda>p. {fst p, snd p}) (mset (map (\<lambda>c. (f c, g c)) out))
            \<subseteq># image_mset (\<lambda>p. {fst p, snd p}) (mset (map (\<lambda>(i, j). (ts ! i, ts ! j)) P))"
    by (rule image_mset_subseteq_mono [OF assms])
  then show ?thesis
    by (simp add: multiset.map_comp comp_def case_prod_unfold)
qed

lemma collected_pairs_mset:
  "mset (map (\<lambda>c. (sat1 c, sat2 c)) (concat (map (pair_conjunctions E ts) ps)))
     \<subseteq># mset (map (\<lambda>(i, j). (ts ! i, ts ! j)) ps)"
proof (induction ps)
  case Nil
  then show ?case by simp
next
  case (Cons p ps)
  obtain i j where p: "p = (i, j)" by (cases p)
  have "mset (map (\<lambda>c. (sat1 c, sat2 c)) (pair_conjunctions E ts p)) \<subseteq># {#(ts ! i, ts ! j)#}"
    using pair_conjunctions_cases [of E ts i j] by (auto simp: p)
  then have "mset (map (\<lambda>c. (sat1 c, sat2 c)) (pair_conjunctions E ts p))
               + mset (map (\<lambda>c. (sat1 c, sat2 c)) (concat (map (pair_conjunctions E ts) ps)))
             \<subseteq># {#(ts ! i, ts ! j)#} + mset (map (\<lambda>(i, j). (ts ! i, ts ! j)) ps)"
    using Cons.IH by (rule subset_mset.add_mono)
  then show ?case by (simp add: p)
qed

lemma unordered_pairs_distinct:
  assumes "distinct ts"
  shows "distinct (map (\<lambda>(i, j). {ts ! i, ts ! j}) (visited_pairs (length ts)))"
proof -
  have "inj_on (\<lambda>(i, j). {ts ! i, ts ! j}) (set (visited_pairs (length ts)))"
  proof (rule inj_onI)
    fix p q
    assume p: "p \<in> set (visited_pairs (length ts))" and q: "q \<in> set (visited_pairs (length ts))"
      and eq: "(case p of (i, j) \<Rightarrow> {ts ! i, ts ! j}) = (case q of (i, j) \<Rightarrow> {ts ! i, ts ! j})"
    obtain i j i' j' where pq: "p = (i, j)" "q = (i', j')" by (cases p, cases q)
    have lt: "i < j" "j < length ts" "i' < j'" "j' < length ts"
      using p q pq by (auto simp: visited_pairs_set)
    then have il: "i < length ts" "i' < length ts" by simp_all
    from eq have "{ts ! i, ts ! j} = {ts ! i', ts ! j'}" by (simp add: pq)
    then have "(ts ! i = ts ! i' \<and> ts ! j = ts ! j') \<or> (ts ! i = ts ! j' \<and> ts ! j = ts ! i')"
      by (auto simp: doubleton_eq_iff)
    then have "(i = i' \<and> j = j') \<or> (i = j' \<and> j = i')"
      using assms lt il by (simp add: nth_eq_iff_index_eq)
    then show "p = q" using lt pq by auto
  qed
  then show ?thesis by (simp add: distinct_map visited_pairs_distinct)
qed

text \<open>
  Claim C10. The pairwise loop visits every pair of positions \<open>i < j\<close> of the trackable
  snapshot exactly once, and each visit adds at most one conjunction, whose objects are
  the ones at \<open>i\<close> and \<open>j\<close>. So every returned conjunction pairs two different entries of
  the snapshot, and when the entries are pairwise different no unordered pair of objects
  occurs in two returned conjunctions.
\<close>

theorem pairs_visited_once:
  assumes "detectConjunctions E sats = Inr out"
  shows "mset (map (\<lambda>c. (sat1 c, sat2 c)) out)
           \<subseteq># mset (map (\<lambda>(i, j). (filter trackable sats ! i, filter trackable sats ! j))
                       (visited_pairs (length (filter trackable sats))))
       \<and> distinct (visited_pairs (length (filter trackable sats)))
       \<and> set (visited_pairs (length (filter trackable sats)))
           = {(i, j). i < j \<and> j < length (filter trackable sats)}
       \<and> (distinct (filter trackable sats)
            \<longrightarrow> (\<forall>c\<in>set out. sat1 c \<noteq> sat2 c) \<and> distinct (map (\<lambda>c. {sat1 c, sat2 c}) out))"
proof -
  let ?ts = "filter trackable sats"
  let ?P = "visited_pairs (length ?ts)"
  from detect_Inr [OF assms] obtain cs where
    cs: "outer_loop E ?ts [0..<length ?ts] [] = Inr cs"
    and out: "out = take 5 (js_sort by_time cs)" by blast
  have cse: "cs = concat (map (pair_conjunctions E ?ts) ?P)" by (rule collected_eq [OF cs])
  have sub: "mset out \<subseteq># mset cs"
    using mset_take_subset [of 5 "js_sort by_time cs"] by (simp add: out)
  have "mset (map (\<lambda>c. (sat1 c, sat2 c)) out) \<subseteq># mset (map (\<lambda>c. (sat1 c, sat2 c)) cs)"
    using image_mset_subseteq_mono [OF sub] by simp
  also have "\<dots> \<subseteq># mset (map (\<lambda>(i, j). (?ts ! i, ?ts ! j)) ?P)"
    unfolding cse by (rule collected_pairs_mset)
  finally have incl: "mset (map (\<lambda>c. (sat1 c, sat2 c)) out)
                        \<subseteq># mset (map (\<lambda>(i, j). (?ts ! i, ?ts ! j)) ?P)" .
  have dist: "(\<forall>c\<in>set out. sat1 c \<noteq> sat2 c) \<and> distinct (map (\<lambda>c. {sat1 c, sat2 c}) out)"
    if d: "distinct ?ts"
  proof
    show "\<forall>c\<in>set out. sat1 c \<noteq> sat2 c"
    proof
      fix c assume "c \<in> set out"
      from detect_member [OF assms this] obtain i j where
        ij: "i < j" "j < length ?ts" and s: "sat1 c = ?ts ! i" "sat2 c = ?ts ! j"
        by auto
      have "i < length ?ts" using ij by simp
      then show "sat1 c \<noteq> sat2 c"
        using d ij s by (simp add: nth_eq_iff_index_eq)
    qed
  next
    have "mset (map (\<lambda>c. {sat1 c, sat2 c}) out)
            \<subseteq># mset (map (\<lambda>(i, j). {?ts ! i, ?ts ! j}) ?P)"
      by (rule unordered_mset [OF incl])
    then show "distinct (map (\<lambda>c. {sat1 c, sat2 c}) out)"
      by (rule distinct_of_mset_subset) (rule unordered_pairs_distinct [OF d])
  qed
  have dist': "distinct ?ts
            \<longrightarrow> (\<forall>c\<in>set out. sat1 c \<noteq> sat2 c) \<and> distinct (map (\<lambda>c. {sat1 c, sat2 c}) out)"
    by (rule impI) (rule dist)
  show ?thesis
    by (intro conjI incl visited_pairs_distinct visited_pairs_set dist')
qed

theorem pairs_visited_once_witness:
  "detectConjunctions formation_env tie_snapshot =
     Inr [make_conjunction formation_env (tle_sat ''A'' 0 (Some (Num 629)))
            (tle_sat ''B'' 2 (Some (Num 629))) (formation_approach 0 2),
          make_conjunction formation_env (tle_sat ''A'' 0 (Some (Num 629)))
            (tle_sat ''C'' 1 (Some (Num 629))) (formation_approach 0 1),
          make_conjunction formation_env (tle_sat ''B'' 2 (Some (Num 629)))
            (tle_sat ''C'' 1 (Some (Num 629))) (formation_approach 2 1)]
   \<and> distinct (filter trackable tie_snapshot)
   \<and> distinct (map (\<lambda>c. {sat1 c, sat2 c})
        [make_conjunction formation_env (tle_sat ''A'' 0 (Some (Num 629)))
            (tle_sat ''B'' 2 (Some (Num 629))) (formation_approach 0 2),
          make_conjunction formation_env (tle_sat ''A'' 0 (Some (Num 629)))
            (tle_sat ''C'' 1 (Some (Num 629))) (formation_approach 0 1),
          make_conjunction formation_env (tle_sat ''B'' 2 (Some (Num 629)))
            (tle_sat ''C'' 1 (Some (Num 629))) (formation_approach 2 1)])"
proof -
  have d: "distinct (filter trackable tie_snapshot)"
    by (simp add: tie_snapshot_def) (simp add: tle_sat_def)
  from pairs_visited_once [OF tie_snapshot_result] d
  show ?thesis using tie_snapshot_result by blast
qed

section \<open>Debris cascade\<close>

lemma debris_loop_finite:
  assumes "positions c = Some ps"
  shows "N - i = m \<Longrightarrow> N = nat \<lceil>n\<rceil> \<Longrightarrow>
         debris_loop E c (Num n) i k acc
           = Some (Inr (acc @ map (\<lambda>j. make_fragment E c ps (k + 4 * j)) [0..<m]))"
proof (induction m arbitrary: i k acc)
  case 0
  then have "\<not> real i < n" by linarith
  then show ?case by (subst debris_loop.simps) simp
next
  case (Suc m)
  then have lt: "real i < n" by linarith
  have "N - Suc i = m" using Suc.prems by simp
  from Suc.IH [OF this Suc.prems(2)]
  have "debris_loop E c (Num n) (Suc i) (k + 4) (acc @ [make_fragment E c ps k])
          = Some (Inr ((acc @ [make_fragment E c ps k])
                        @ map (\<lambda>j. make_fragment E c ps (k + 4 + 4 * j)) [0..<m]))" .
  moreover have "map (\<lambda>j. make_fragment E c ps (k + 4 * j)) [0..<Suc m]
                   = make_fragment E c ps k # map (\<lambda>j. make_fragment E c ps (k + 4 + 4 * j)) [0..<m]"
    by (simp add: upt_conv_Cons map_Suc_upt [symmetric] add.assoc del: upt_Suc)
  ultimately show ?case
    using lt assms by (subst debris_loop.simps) (simp del: upt_Suc)
qed

lemma simulate_finite:
  assumes "relativeVelocity c = Num v" and "positions c = Some ps"
  shows "simulateDebrisCascade E c
           = Some (Inr (map (\<lambda>j. make_fragment E c ps (4 * j)) [0..<nat \<lfloor>50 + v * 10\<rfloor>]))"
proof -
  have "nat \<lfloor>50 + v * 10\<rfloor> - 0 = nat \<lfloor>50 + v * 10\<rfloor>"
    "nat \<lfloor>50 + v * 10\<rfloor> = nat \<lceil>real_of_int \<lfloor>50 + v * 10\<rfloor>\<rceil>"
    by simp_all
  from debris_loop_finite [OF assms(2) this, of E 0 "[]"]
  show ?thesis by (simp add: simulateDebrisCascade_def assms(1))
qed

text \<open>
  A count of NaN gives no fragment; with a count of \<open>+Infinity\<close> the loop never
  returns.
\<close>

lemma debris_loop_NaN: "debris_loop E c NaN i k acc = Some (Inr acc)"
  by (subst debris_loop.simps) simp

lemma debris_loop_returns:
  assumes "debris_loop E c n i k acc = Some r"
  shows "n \<noteq> PInf \<or> positions c = None"
proof (rule debris_loop.raw_induct
    [where P = "\<lambda>E c n i k acc r. n \<noteq> PInf \<or> positions c = None", OF _ assms])
  fix f :: "'a env \<Rightarrow> 'a conjunction \<Rightarrow> jsnum \<Rightarrow> nat \<Rightarrow> nat \<Rightarrow> fragment list
              \<Rightarrow> (js_error + fragment list) option"
    and E c n i k acc r
  assume IH: "\<And>E c n i k acc r. f E c n i k acc = Some r \<Longrightarrow> n \<noteq> PInf \<or> positions c = None"
    and eq: "(if js_lt (Num (real i)) n
              then case positions c of
                     None \<Rightarrow> Some (Inl TypeError)
                   | Some ps \<Rightarrow> f E c n (Suc i) (k + 4) (acc @ [make_fragment E c ps k])
              else Some (Inr acc)) = Some r"
  show "n \<noteq> PInf \<or> positions c = None"
  proof (cases "positions c")
    case None
    then show ?thesis by simp
  next
    case (Some ps)
    show ?thesis
    proof (cases "n = PInf")
      case True
      then have "f E c n (Suc i) (k + 4) (acc @ [make_fragment E c ps k]) = Some r"
        using eq Some by simp
      from IH [OF this] show ?thesis .
    next
      case False
      then show ?thesis by simp
    qed
  qed
qed

lemma simulate_unbounded:
  assumes "relativeVelocity c = PInf" and "positions c \<noteq> None"
  shows "simulateDebrisCascade E c = None"
proof (cases "simulateDebrisCascade E c")
  case None
  then show ?thesis .
next
  case (Some r)
  then have "debris_loop E c PInf 0 0 [] = Some r"
    by (simp add: simulateDebrisCascade_def assms(1) signed_inf_def)
  from debris_loop_returns [OF this] show ?thesis using assms(2) by simp
qed

lemma simulate_NaN:
  assumes "relativeVelocity c = NaN"
  shows "simulateDebrisCascade E c = Some (Inr [])"
  by (simp add: simulateDebrisCascade_def assms debris_loop_NaN)

text \<open>
  Claim C7. For a conjunction with a relative velocity \<open>v \<ge> 0\<close> the simulator returns
  exactly \<open>floor (50 + v \<sqdot> 10)\<close> fragments, whatever the random source returns; for
  \<open>v = 10\<close> km/s these are 150 fragments.
\<close>

theorem fragment_count:
  assumes "relativeVelocity c = Num v" and "0 \<le> v" and "positions c \<noteq> None"
  shows "\<exists>n. int n = \<lfloor>50 + v * 10\<rfloor> \<and> (v = 10 \<longrightarrow> n = 150)
           \<and> (\<forall>E. \<exists>debris. simulateDebrisCascade E c = Some (Inr debris) \<and> length debris = n)"
proof -
  obtain ps where ps: "positions c = Some ps" using assms(3) by blast
  have "0 \<le> \<lfloor>50 + v * 10\<rfloor>" using assms(2) by simp
  then have "int (nat \<lfloor>50 + v * 10\<rfloor>) = \<lfloor>50 + v * 10\<rfloor>" by simp
  moreover have "nat \<lfloor>50 + v * 10\<rfloor> = 150" if "v = 10" using that by simp
  moreover have "\<exists>debris. simulateDebrisCascade E c = Some (Inr debris)
                   \<and> length debris = nat \<lfloor>50 + v * 10\<rfloor>" for E
    by (simp add: simulate_finite [OF assms(1) ps])
  ultimately show ?thesis by blast
qed

theorem fragment_count_witness:
  "relativeVelocity head_on = Num 10 \<and> (0::real) \<le> 10 \<and> positions head_on \<noteq> None
   \<and> (\<exists>debris. simulateDebrisCascade formation_env head_on = Some (Inr debris)
         \<and> length debris = 150)"
proof -
  have h: "relativeVelocity head_on = Num 10" "(0::real) \<le> 10" "positions head_on \<noteq> None"
    by (simp_all add: head_on_def formation_approach_def)
  from fragment_count [OF h] show ?thesis using h by blast
qed

text \<open>
  Claim C8. When every random draw lies in \<open>[0, 1)\<close>, the \<open>i\<close>-th fragment has the
  velocity components \<open>(r - 0.5) \<sqdot> v \<sqdot> 0.3\<close> for the draws \<open>r\<close> numbered \<open>4i\<close>, \<open>4i + 1\<close>
  and \<open>4i + 2\<close>, each of absolute value at most \<open>0.15 \<sqdot> |v|\<close>; its size is half of draw
  \<open>4i + 3\<close>, between 0 and 0.5; and it starts at the position of the first object of the
  pair at the predicted closest approach.
\<close>

theorem fragment_shape:
  assumes "\<forall>n. 0 \<le> random E n \<and> random E n < 1"
    and "relativeVelocity c = Num v" and "positions c = Some ps"
    and "simulateDebrisCascade E c = Some (Inr debris)" and "i < length debris"
  shows "frag_velocity (debris ! i) =
           \<lparr>vx = Num ((random E (4 * i) - 0.5) * v * 0.3),
            vy = Num ((random E (4 * i + 1) - 0.5) * v * 0.3),
            vz = Num ((random E (4 * i + 2) - 0.5) * v * 0.3)\<rparr>
       \<and> \<bar>(random E (4 * i) - 0.5) * v * 0.3\<bar> \<le> 0.15 * \<bar>v\<bar>
       \<and> \<bar>(random E (4 * i + 1) - 0.5) * v * 0.3\<bar> \<le> 0.15 * \<bar>v\<bar>
       \<and> \<bar>(random E (4 * i + 2) - 0.5) * v * 0.3\<bar> \<le> 0.15 * \<bar>v\<bar>
       \<and> frag_size (debris ! i) = Num (random E (4 * i + 3) * 0.5)
       \<and> 0 \<le> random E (4 * i + 3) * 0.5 \<and> random E (4 * i + 3) * 0.5 \<le> 0.5
       \<and> frag_position (debris ! i) = Some (pos_sat1 ps)"
proof -
  have d: "debris = map (\<lambda>j. make_fragment E c ps (4 * j)) [0..<nat \<lfloor>50 + v * 10\<rfloor>]"
    using simulate_finite [OF assms(2,3), of E] assms(4) by simp
  then have f: "debris ! i = make_fragment E c ps (4 * i)"
    using assms(5) by simp
  have bound: "\<bar>(r - 0.5) * v * 0.3\<bar> \<le> 0.15 * \<bar>v\<bar>" if "0 \<le> r" "r < 1" for r :: real
  proof -
    have "\<bar>r - 0.5\<bar> \<le> 0.5" using that by linarith
    then have "\<bar>r - 0.5\<bar> * \<bar>v\<bar> \<le> 0.5 * \<bar>v\<bar>"
      by (rule mult_right_mono) simp
    then have "0.3 * (\<bar>r - 0.5\<bar> * \<bar>v\<bar>) \<le> 0.3 * (0.5 * \<bar>v\<bar>)"
      by (rule mult_left_mono) simp
    moreover have "\<bar>(r - 0.5) * v * 0.3\<bar> = 0.3 * (\<bar>r - 0.5\<bar> * \<bar>v\<bar>)"
      by (simp add: abs_mult)
    moreover have "0.3 * (0.5 * \<bar>v\<bar>) = 0.15 * \<bar>v\<bar>"
      by simp
    ultimately show ?thesis by (simp only:)
  qed
  have r: "0 \<le> random E n" "random E n < 1" for n using assms(1) by simp_all
  have "0 \<le> random E (4 * i + 3) * 0.5" "random E (4 * i + 3) * 0.5 \<le> 0.5"
    using r [of "4 * i + 3"] by simp_all
  then show ?thesis
    using bound [OF r] by (simp add: f make_fragment_def assms(2) js_sub_def)
qed

theorem fragment_shape_witness:
  "(\<forall>n. 0 \<le> random formation_env n \<and> random formation_env n < 1)
   \<and> relativeVelocity head_on = Num 10
   \<and> positions head_on = Some head_on_positions
   \<and> (\<exists>debris. simulateDebrisCascade formation_env head_on = Some (Inr debris)
         \<and> 0 < length debris
         \<and> frag_velocity (debris ! 0) = \<lparr>vx = Num (- 3 / 4), vy = Num (- 3 / 4), vz = Num (- 3 / 4)\<rparr>
         \<and> frag_size (debris ! 0) = Num (1 / 8)
         \<and> frag_position (debris ! 0) = Some (pos_sat1 head_on_positions))"
proof -
  have r: "\<forall>n. 0 \<le> random formation_env n \<and> random formation_env n < 1"
    by (simp add: formation_env_def)
  have v: "relativeVelocity head_on = Num 10"
    and p: "positions head_on = Some head_on_positions"
    by (simp_all add: head_on_def formation_approach_def head_on_positions_def)
  obtain debris where s: "simulateDebrisCascade formation_env head_on = Some (Inr debris)"
    and l: "length debris = nat \<lfloor>50 + (10::real) * 10\<rfloor>"
    using simulate_finite [OF v p, of formation_env] by simp
  have l0: "0 < length debris" using l by simp
  have q: "random formation_env n = 1 / 4" for n by (simp add: formation_env_def)
  from fragment_shape [OF r v p s l0]
  have "frag_velocity (debris ! 0) = \<lparr>vx = Num (- 3 / 4), vy = Num (- 3 / 4), vz = Num (- 3 / 4)\<rparr>
         \<and> frag_size (debris ! 0) = Num (1 / 8)
         \<and> frag_position (debris ! 0) = Some (pos_sat1 head_on_positions)"
    by (simp add: q)
  then show ?thesis using r v p s l0 by blast
qed

section \<open>Impact assessment\<close>

lemma inDebrisZone_iff: "inDebrisZone debris sat \<longleftrightarrow> within_debris debris sat"
proof (cases "position sat")
  case None
  then show ?thesis by (simp add: inDebrisZone_def within_debris_def list_ex_iff)
next
  case (Some sp)
  have "(case frag_position frag of None \<Rightarrow> False
         | Some fp \<Rightarrow> js_lt (calculateDistance3D sp fp) (Num 100))
        \<longleftrightarrow> (\<exists>fp. frag_position frag = Some fp \<and> js_lt (calculateDistance3D sp fp) (Num 100))"
    for frag :: fragment
    by (cases "frag_position frag") simp_all
  then show ?thesis by (simp add: inDebrisZone_def within_debris_def list_ex_iff Some)
qed

lemma identify_eq:
  "identifyAffectedSatellites debris sats = map impact_record (filter (within_debris debris) sats)"
  by (induction sats) (simp_all add: inDebrisZone_iff impact_record_def)

text \<open>
  Claim C6. The assessor flags exactly the objects that have a position within 100 km of
  the position of some fragment, in the order of the catalog, each with the reason
  "In debris field path" and the level ELEVATED. An object at the very position of a
  fragment is flagged, an object 100 km or more (so also 200 km) from every fragment is
  not, and an object without a position is left out without an error.
\<close>

theorem impact_assessment:
  "identifyAffectedSatellites debris sats = map impact_record (filter (within_debris debris) sats)
   \<and> (\<forall>r\<in>set (identifyAffectedSatellites debris sats).
         reason r = ''In debris field path'' \<and> imp_riskLevel r = ELEVATED)
   \<and> (sat \<in> set sats \<and> position sat = Some \<lparr>vx = Num a, vy = Num b, vz = Num c\<rparr>
        \<and> frag \<in> set debris \<and> frag_position frag = Some \<lparr>vx = Num a, vy = Num b, vz = Num c\<rparr>
      \<longrightarrow> impact_record sat \<in> set (identifyAffectedSatellites debris sats))
   \<and> (position far = Some sp
        \<and> (\<forall>f\<in>set debris. \<forall>fp. frag_position f = Some fp
              \<longrightarrow> (\<exists>d. calculateDistance3D sp fp = Num d \<and> 100 \<le> d))
      \<longrightarrow> far \<notin> imp_satellite ` set (identifyAffectedSatellites debris sats))
   \<and> (position lost = None
      \<longrightarrow> lost \<notin> imp_satellite ` set (identifyAffectedSatellites debris sats))"
proof -
  have flagged: "imp_satellite ` set (identifyAffectedSatellites debris sats)
                   = {s \<in> set sats. within_debris debris s}"
    by (auto simp: identify_eq impact_record_def image_iff)
  have 1: "\<forall>r\<in>set (identifyAffectedSatellites debris sats).
         reason r = ''In debris field path'' \<and> imp_riskLevel r = ELEVATED"
    by (auto simp: identify_eq impact_record_def)
  have 2: "impact_record sat \<in> set (identifyAffectedSatellites debris sats)"
    if "sat \<in> set sats" "position sat = Some \<lparr>vx = Num a, vy = Num b, vz = Num c\<rparr>"
       "frag \<in> set debris" "frag_position frag = Some \<lparr>vx = Num a, vy = Num b, vz = Num c\<rparr>"
  proof -
    have "within_debris debris sat"
      unfolding within_debris_def using that distance_self [of a b c] by force
    then show ?thesis using that(1) by (simp add: identify_eq)
  qed
  have 3: "far \<notin> imp_satellite ` set (identifyAffectedSatellites debris sats)"
    if "position far = Some sp"
       "\<forall>f\<in>set debris. \<forall>fp. frag_position f = Some fp
              \<longrightarrow> (\<exists>d. calculateDistance3D sp fp = Num d \<and> 100 \<le> d)"
  proof -
    have "\<not> within_debris debris far"
      unfolding within_debris_def using that by fastforce
    then show ?thesis by (simp add: flagged)
  qed
  have 4: "lost \<notin> imp_satellite ` set (identifyAffectedSatellites debris sats)"
    if "position lost = None"
    using that by (simp add: flagged within_debris_def)
  show ?thesis using identify_eq 1 2 3 4 by blast
qed

theorem impact_assessment_witness:
  "tle_sat ''A'' 0 None \<in> set [tle_sat ''A'' 0 None, tle_sat ''B'' 800 None, bare_sat]
   \<and> position (tle_sat ''A'' 0 None) = Some \<lparr>vx = Num 7000, vy = Num 0, vz = Num 0\<rparr>
   \<and> shard 7000 \<in> set [shard 7000]
   \<and> frag_position (shard 7000) = Some \<lparr>vx = Num 7000, vy = Num 0, vz = Num 0\<rparr>
   \<and> position (tle_sat ''B'' 800 None) = Some \<lparr>vx = Num 7200, vy = Num 0, vz = Num 0\<rparr>
   \<and> calculateDistance3D \<lparr>vx = Num 7200, vy = Num 0, vz = Num 0\<rparr>
                          \<lparr>vx = Num 7000, vy = Num 0, vz = Num 0\<rparr> = Num 200
   \<and> position bare_sat = None
   \<and> identifyAffectedSatellites [shard 7000]
         [tle_sat ''A'' 0 None, tle_sat ''B'' 800 None, bare_sat]
       = [\<lparr>imp_satellite = tle_sat ''A'' 0 None, imp_riskLevel = ELEVATED,
           reason = ''In debris field path''\<rparr>]
   \<and> impact_record (tle_sat ''A'' 0 None)
        \<in> set (identifyAffectedSatellites [shard 7000]
                  [tle_sat ''A'' 0 None, tle_sat ''B'' 800 None, bare_sat])
   \<and> tle_sat ''B'' 800 None
        \<notin> imp_satellite ` set (identifyAffectedSatellites [shard 7000]
                  [tle_sat ''A'' 0 None, tle_sat ''B'' 800 None, bare_sat])
   \<and> bare_sat
        \<notin> imp_satellite ` set (identifyAffectedSatellites [shard 7000]
                  [tle_sat ''A'' 0 None, tle_sat ''B'' 800 None, bare_sat])"
proof -
  have d: "calculateDistance3D \<lparr>vx = Num 7200, vy = Num 0, vz = Num 0\<rparr>
                          \<lparr>vx = Num 7000, vy = Num 0, vz = Num 0\<rparr> = Num 200"
    by (simp add: calculateDistance3D_finite euclid_def sqrt_200)
  have h: "tle_sat ''A'' 0 None \<in> set [tle_sat ''A'' 0 None, tle_sat ''B'' 800 None, bare_sat]"
    "position (tle_sat ''A'' 0 None) = Some \<lparr>vx = Num 7000, vy = Num 0, vz = Num 0\<rparr>"
    "shard 7000 \<in> set [shard 7000]"
    "frag_position (shard 7000) = Some \<lparr>vx = Num 7000, vy = Num 0, vz = Num 0\<rparr>"
    "position (tle_sat ''B'' 800 None) = Some \<lparr>vx = Num 7200, vy = Num 0, vz = Num 0\<rparr>"
    "position bare_sat = None"
    by (simp_all add: tle_sat_def shard_def bare_sat_def)
  have far: "\<forall>f\<in>set [shard 7000]. \<forall>fp. frag_position f = Some fp
       \<longrightarrow> (\<exists>d. calculateDistance3D \<lparr>vx = Num 7200, vy = Num 0, vz = Num 0\<rparr> fp = Num d \<and> 100 \<le> d)"
    using d by (simp add: shard_def)
  have r: "identifyAffectedSatellites [shard 7000]
             [tle_sat ''A'' 0 None, tle_sat ''B'' 800 None, bare_sat]
           = [\<lparr>imp_satellite = tle_sat ''A'' 0 None, imp_riskLevel = ELEVATED,
               reason = ''In debris field path''\<rparr>]"
    by (simp add: inDebrisZone_def h d distance_self shard_def)
  from impact_assessment [of "[shard 7000]"
      "[tle_sat ''A'' 0 None, tle_sat ''B'' 800 None, bare_sat]" "tle_sat ''A'' 0 None"
      7000 0 0 "shard 7000" "tle_sat ''B'' 800 None"
      "\<lparr>vx = Num 7200, vy = Num 0, vz = Num 0\<rparr>" bare_sat]
  show ?thesis using h d far r by blast
qed

end
